theory Spec2Isabelle
  imports Complex_Main
begin

section \<open>Python strings, paths and dictionaries\<close>

text \<open>
  Strings are character lists. Every pattern the scripts search for is ASCII, and UTF-8 is
  self-synchronising, so searching bytes and searching code points agree on them.
\<close>

definition startswith :: "string \<Rightarrow> string \<Rightarrow> bool" where
  "startswith s p = (take (length p) s = p)"

definition endswith :: "string \<Rightarrow> string \<Rightarrow> bool" where
  "endswith s suf = (length suf \<le> length s \<and> drop (length s - length suf) s = suf)"

text \<open>
  \<^verbatim>\<open>s.replace(old, new)\<close> for a non-empty \<open>old = c0 # rest\<close>: occurrences are replaced
  from left to right without overlap.
\<close>

fun replace_from :: "char \<Rightarrow> string \<Rightarrow> string \<Rightarrow> string \<Rightarrow> string" where
  "replace_from c0 rest new [] = []"
| "replace_from c0 rest new (c # cs) =
     (if c = c0 \<and> take (length rest) cs = rest
      then new @ replace_from c0 rest new (drop (length rest) cs)
      else c # replace_from c0 rest new cs)"

text \<open>With an empty \<open>old\<close>, Python puts \<open>new\<close> before every character and at the end.\<close>

definition replace :: "string \<Rightarrow> string \<Rightarrow> string \<Rightarrow> string" where
  "replace s old new =
     (case old of
        [] \<Rightarrow> new @ concat (map (\<lambda>c. c # new) s)
      | c0 # rest \<Rightarrow> replace_from c0 rest new s)"

text \<open>\<^verbatim>\<open>s.split(sep)\<close> for a one-character separator; the result is never empty.\<close>

fun split :: "string \<Rightarrow> char \<Rightarrow> string list" where
  "split [] sep = [[]]"
| "split (c # cs) sep =
     (if c = sep then [] # split cs sep
      else (case split cs sep of
              [] \<Rightarrow> [[c]]
            | w # ws \<Rightarrow> (c # w) # ws))"

text \<open>\<^verbatim>\<open>os.path.join(a, b)\<close> of \<^verbatim>\<open>posixpath\<close>, for two components.\<close>

definition path_join :: "string \<Rightarrow> string \<Rightarrow> string" where
  "path_join a b =
     (if startswith b ''/'' then b
      else if a = [] \<or> endswith a ''/'' then a @ b
      else a @ ''/'' @ b)"

text \<open>
  A Python \<^verbatim>\<open>dict\<close> keeps its keys in insertion order; assigning to a key that is present
  replaces the value where the key stands.
\<close>

type_synonym ('k, 'v) dict = "('k \<times> 'v) list"

fun dict_set :: "'k \<Rightarrow> 'v \<Rightarrow> ('k, 'v) dict \<Rightarrow> ('k, 'v) dict" where
  "dict_set k v [] = [(k, v)]"
| "dict_set k v ((k', v') # d) =
     (if k' = k then (k', v) # d else (k', v') # dict_set k v d)"

definition dict_has :: "'k \<Rightarrow> ('k, 'v) dict \<Rightarrow> bool" where
  "dict_has k d = (map_of d k \<noteq> None)"

section \<open>The scene graph\<close>

text \<open>
  One record of \<^verbatim>\<open>scene_graph-backtracked.json\<close>, with the fields the script reads.
  JSON numbers are modelled as reals.
\<close>

record xyz_position =
  pos_x :: real
  pos_y :: real
  pos_z :: real

record z_rotation =
  z_angle :: real

record lwh_size =
  length_m :: real
  width_m :: real
  height_m :: real

record scene_item =
  new_object_id :: string
  position :: xyz_position
  rotation :: z_rotation
  size_in_meters :: lwh_size

definition structural_labels :: "string list" where
  "structural_labels =
     [''south_wall'', ''north_wall'', ''east_wall'', ''west_wall'',
      ''middle of the room'', ''ceiling'']"

text \<open>The loading loop of the inner script: \<^verbatim>\<open>for item in data: if ... not in [...]: ...\<close>.\<close>

definition load_step :: "scene_item \<Rightarrow> (string, scene_item) dict \<Rightarrow> (string, scene_item) dict" where
  "load_step item objects_in_room =
     (if new_object_id item \<notin> set structural_labels
      then dict_set (new_object_id item) item objects_in_room
      else objects_in_room)"

definition load_json :: "scene_item list \<Rightarrow> (string, scene_item) dict" where
  "load_json data = fold load_step data []"

section \<open>Discovering the asset files\<close>

text \<open>
  \<^verbatim>\<open>os.walk\<close> is the file system's answer: a list of \<open>(root, dirs, files)\<close> in walk order.
\<close>

type_synonym walk = "(string \<times> string list \<times> string list) list"

definition glb_key :: "string \<Rightarrow> string" where
  "glb_key file = hd (split file CHR ''.'')"

definition glb_file_step :: "string \<Rightarrow> string \<Rightarrow> (string, string) dict \<Rightarrow> (string, string) dict" where
  "glb_file_step rootdir file glb_files =
     (if endswith file ''.glb''
      then (let key = glb_key file
            in if \<not> dict_has key glb_files
               then dict_set key (path_join rootdir file) glb_files
               else glb_files)
      else glb_files)"

definition glb_dir_step ::
  "string \<times> string list \<times> string list \<Rightarrow> (string, string) dict \<Rightarrow> (string, string) dict" where
  "glb_dir_step entry glb_files =
     (case entry of (rootdir, dirs, files) \<Rightarrow> fold (glb_file_step rootdir) files glb_files)"

definition find_glb_files :: "walk \<Rightarrow> (string, string) dict" where
  "find_glb_files w = fold glb_dir_step w []"

text \<open>The files of a walk in the order the two loops meet them, each with its directory.\<close>

definition walk_files :: "walk \<Rightarrow> (string \<times> string) list" where
  "walk_files w = concat (map (\<lambda>(rootdir, dirs, files). map (\<lambda>file. (rootdir, file)) files) w)"

text \<open>A file of the walk that ends in \<^verbatim>\<open>.glb\<close> and whose name gives the key \<open>k\<close>.\<close>

definition is_glb_for :: "string \<Rightarrow> string \<times> string \<Rightarrow> bool" where
  "is_glb_for k entry = (case entry of (rootdir, file) \<Rightarrow> endswith file ''.glb'' \<and> glb_key file = k)"

section \<open>Importing the assets\<close>

text \<open>
  What the inner script prints and asks of the host application, in order. \<open>Import_gltf\<close>
  stands for lines 143 to 146: the call of the host's glTF importer on a file and the naming
  of the object the host leaves active.
\<close>

datatype inner_event =
    Print_glb_file_paths "(string, string) dict"
  | Print_line string
  | Import_gltf string string

definition import_step ::
  "string \<times> scene_item \<Rightarrow> (string, string) dict \<Rightarrow>
   (string \<times> string) list \<times> inner_event list \<Rightarrow> (string \<times> string) list \<times> inner_event list" where
  "import_step entry glb_file_paths acc =
     (case entry of (item_id, object_in_room) \<Rightarrow>
      (case acc of (import_list, printed) \<Rightarrow>
       (case map_of glb_file_paths item_id of
          Some file_path \<Rightarrow> (import_list @ [(file_path, item_id)], printed)
        | None \<Rightarrow>
            (import_list, printed @ [Print_line (''Warning: No GLB file found for '' @ item_id)]))))"

definition batch_import_assets ::
  "(string, scene_item) dict \<Rightarrow> (string, string) dict \<Rightarrow> inner_event list" where
  "batch_import_assets objects_in_room glb_file_paths =
     (case fold (\<lambda>entry. import_step entry glb_file_paths) objects_in_room ([], []) of
        (import_list, printed) \<Rightarrow>
          Print_glb_file_paths glb_file_paths # printed
          @ map (\<lambda>(file_path, object_name). Import_gltf file_path object_name) import_list)"

section \<open>Placing the meshes\<close>

datatype py_error = ZeroDivisionError | ValueError

datatype object_type = MESH | EMPTY | OTHER

record vector =
  vec_x :: real
  vec_y :: real
  vec_z :: real

text \<open>
  A host object with the attributes the third batch of \<^verbatim>\<open>batch_process_meshes\<close> reads and
  writes. The host's rotate operator is not part of the repository: \<open>rotate_z_calls\<close> lists
  the values it was called with, about the Z axis, while the object was the selected one.
\<close>

record blender_object =
  name :: string
  obj_type :: object_type
  location :: "real \<times> real \<times> real"
  rotate_z_calls :: "real list"
  obj_scale :: "real \<times> real \<times> real"
  dimensions :: vector

record transform =
  tr_position :: "real \<times> real \<times> real"
  tr_rotation :: real
  tr_size :: lwh_size

definition key_variants :: "string \<Rightarrow> string list" where
  "key_variants obj_name =
     [obj_name,
      replace obj_name ''-joined'' [],
      replace obj_name ''.001'' [],
      replace obj_name ''.002'' []]"

text \<open>\<^verbatim>\<open>next((k for k in key_variants if k in objects_in_room), None)\<close>\<close>

definition match_key :: "(string, scene_item) dict \<Rightarrow> string \<Rightarrow> string option" where
  "match_key objects_in_room obj_name =
     List.find (\<lambda>k. dict_has k objects_in_room) (key_variants obj_name)"

text \<open>
  The entry of \<^verbatim>\<open>transform_map\<close> for a record (lines 194 to 198). The script computes the
  rotation in floating point with \<^verbatim>\<open>math.pi\<close>; here it is the real number \<open>pi\<close>.
\<close>

definition transform_of :: "scene_item \<Rightarrow> transform" where
  "transform_of item =
     \<lparr>tr_position = (pos_x (position item), pos_y (position item), pos_z (position item)),
      tr_rotation = (z_angle (rotation item) / 180) * pi + pi,
      tr_size = size_in_meters item\<rparr>"

text \<open>
  One round of the loop that fills \<^verbatim>\<open>transform_map\<close>. The key comes from a membership
  test, so the lookup \<^verbatim>\<open>objects_in_room[key]\<close> finds it (lemma \<open>match_key_lookup\<close>).
\<close>

definition transform_step ::
  "(string, scene_item) dict \<Rightarrow> blender_object \<Rightarrow> (string, transform) dict \<Rightarrow> (string, transform) dict" where
  "transform_step objects_in_room obj transform_map =
     (case match_key objects_in_room (name obj) of
        None \<Rightarrow> transform_map
      | Some key \<Rightarrow>
          (case map_of objects_in_room key of
             None \<Rightarrow> transform_map
           | Some item \<Rightarrow> dict_set (name obj) (transform_of item) transform_map))"

definition build_transform_map ::
  "(string, scene_item) dict \<Rightarrow> blender_object list \<Rightarrow> (string, transform) dict" where
  "build_transform_map objects_in_room MSH_OBJS = fold (transform_step objects_in_room) MSH_OBJS []"

definition apply_location :: "(string, transform) dict \<Rightarrow> blender_object \<Rightarrow> blender_object" where
  "apply_location transform_map obj =
     (case map_of transform_map (name obj) of
        None \<Rightarrow> obj
      | Some transforms \<Rightarrow> obj\<lparr>location := tr_position transforms\<rparr>)"

definition apply_rotation :: "(string, transform) dict \<Rightarrow> blender_object \<Rightarrow> blender_object" where
  "apply_rotation transform_map obj =
     (case map_of transform_map (name obj) of
        None \<Rightarrow> obj
      | Some transforms \<Rightarrow> obj\<lparr>rotate_z_calls := rotate_z_calls obj @ [tr_rotation transforms]\<rparr>)"

text \<open>
  Python's \<^verbatim>\<open>/\<close> raises \<^verbatim>\<open>ZeroDivisionError\<close> on a zero divisor; the three quotients
  are evaluated from left to right.
\<close>

definition py_truediv :: "real \<Rightarrow> real \<Rightarrow> py_error + real" where
  "py_truediv a b = (if b = 0 then Inl ZeroDivisionError else Inr (a / b))"

definition apply_scale :: "(string, transform) dict \<Rightarrow> blender_object \<Rightarrow> py_error + blender_object" where
  "apply_scale transform_map obj =
     (case map_of transform_map (name obj) of
        None \<Rightarrow> Inr obj
      | Some transforms \<Rightarrow>
          if obj_type obj = MESH
          then (let bbox_dimensions = dimensions obj; scale = tr_size transforms
                in case py_truediv (length_m scale) (vec_x bbox_dimensions) of
                     Inl e \<Rightarrow> Inl e
                   | Inr sx \<Rightarrow>
                 (case py_truediv (width_m scale) (vec_y bbox_dimensions) of
                     Inl e \<Rightarrow> Inl e
                   | Inr sy \<Rightarrow>
                 (case py_truediv (height_m scale) (vec_z bbox_dimensions) of
                     Inl e \<Rightarrow> Inl e
                   | Inr sz \<Rightarrow> Inr (obj\<lparr>obj_scale := (sx, sy, sz)\<rparr>))))
          else Inr obj)"

text \<open>\<^verbatim>\<open>rescale_object\<close> (lines 117 to 127), which the run does not call: the same quotients.\<close>

definition rescale_object :: "blender_object \<Rightarrow> lwh_size \<Rightarrow> py_error + blender_object" where
  "rescale_object obj scale =
     (if obj_type obj = MESH
      then (let bbox_dimensions = dimensions obj
            in case py_truediv (length_m scale) (vec_x bbox_dimensions) of
                 Inl e \<Rightarrow> Inl e
               | Inr sx \<Rightarrow>
             (case py_truediv (width_m scale) (vec_y bbox_dimensions) of
                 Inl e \<Rightarrow> Inl e
               | Inr sy \<Rightarrow>
             (case py_truediv (height_m scale) (vec_z bbox_dimensions) of
                 Inl e \<Rightarrow> Inl e
               | Inr sz \<Rightarrow> Inr (obj\<lparr>obj_scale := (sx, sy, sz)\<rparr>))))
      else Inr obj)"

fun apply_scales :: "(string, transform) dict \<Rightarrow> blender_object list \<Rightarrow> py_error + blender_object list" where
  "apply_scales transform_map [] = Inr []"
| "apply_scales transform_map (obj # objs) =
     (case apply_scale transform_map obj of
        Inl e \<Rightarrow> Inl e
      | Inr obj' \<Rightarrow>
          (case apply_scales transform_map objs of
             Inl e \<Rightarrow> Inl e
           | Inr objs' \<Rightarrow> Inr (obj' # objs')))"

text \<open>Line 167: the mesh objects of the scene, in the scene's order.\<close>

definition mesh_objects :: "blender_object list \<Rightarrow> blender_object list" where
  "mesh_objects scene_objects = filter (\<lambda>m. obj_type m = MESH) scene_objects"

text \<open>
  The third batch of \<^verbatim>\<open>batch_process_meshes\<close> (lines 179 to 224), on the objects of the
  scene as the host's join, parent-clear and transform-apply operators left them. The result
  is the list \<^verbatim>\<open>MSH_OBJS\<close> after the three passes, or the exception that ended them.
\<close>

definition batch_process_meshes ::
  "(string, scene_item) dict \<Rightarrow> blender_object list \<Rightarrow> py_error + blender_object list" where
  "batch_process_meshes objects_in_room scene_objects =
     (let MSH_OBJS = mesh_objects scene_objects;
          transform_map = build_transform_map objects_in_room MSH_OBJS
      in apply_scales transform_map
           (map (apply_rotation transform_map) (map (apply_location transform_map) MSH_OBJS)))"

text \<open>The scene-graph record a mesh name resolves to, if any.\<close>

definition matched_item :: "(string, scene_item) dict \<Rightarrow> string \<Rightarrow> scene_item option" where
  "matched_item objects_in_room obj_name =
     (case match_key objects_in_room obj_name of
        None \<Rightarrow> None
      | Some key \<Rightarrow> map_of objects_in_room key)"

section \<open>Render output paths\<close>

text \<open>\<^verbatim>\<open>str\<close> of a Python integer, as an f-string writes it.\<close>

fun str_nat :: "nat \<Rightarrow> string" where
  "str_nat n =
     (if n < 10 then [''0123456789'' ! n]
      else str_nat (n div 10) @ [''0123456789'' ! (n mod 10)])"

definition str_int :: "int \<Rightarrow> string" where
  "str_int i = (if i < 0 then ''-'' @ str_nat (nat (- i)) else str_nat (nat i))"

text \<open>
  \<^verbatim>\<open>setup_render\<close>, lines 292 to 295: the file the inner script renders to.
\<close>

definition render_filepath :: "string \<Rightarrow> bool \<Rightarrow> int \<Rightarrow> string" where
  "render_filepath room_path ground_truth step_number =
     (if ground_truth
      then path_join room_path ''render_output_groundtruth1.png''
      else path_join room_path (''render_output_step_'' @ str_int step_number @ ''.png''))"

text \<open>Line 20 of the inner script, with \<open>script_dir\<close> the directory the script lies in.\<close>

definition inner_room_path :: "string \<Rightarrow> string \<Rightarrow> string" where
  "inner_room_path script_dir room_name = path_join (path_join script_dir ''data'') room_name"

section \<open>The outer script\<close>

text \<open>
  Lines 13 and 14; \<open>PROJECT_ROOT\<close> is where the outer script lies.
\<close>

definition ROOMS_FOLDER :: "string \<Rightarrow> string" where
  "ROOMS_FOLDER PROJECT_ROOT = path_join (path_join PROJECT_ROOT ''3d_utlis'') ''data''"

definition PLACE_IN_BLENDER_SCRIPT :: "string \<Rightarrow> string" where
  "PLACE_IN_BLENDER_SCRIPT PROJECT_ROOT =
     path_join (path_join PROJECT_ROOT ''3d_utlis'') ''place_in_blender.py''"

text \<open>
  What \<^verbatim>\<open>subprocess.run\<close> gives back: a completed process with return code, stdout and
  stderr, or an exception (of class \<^verbatim>\<open>Exception\<close>) with its message.
\<close>

datatype run_result = CompletedProcess int string string | Raised string

text \<open>
  The operating system as the outer script meets it: which paths exist before the
  subprocess runs, what running a command gives, and which paths exist afterwards.
\<close>

record os_env =
  path_exists :: "string \<Rightarrow> bool"
  subprocess_run :: "string \<Rightarrow> run_result"
  path_exists_after :: "string \<Rightarrow> bool"

text \<open>
  The effects of the outer script, in order. It has no other effect: it opens and writes no
  file itself. \<open>Print_total_time\<close> is the last line, whose number is the clock's.
\<close>

datatype outer_event = Print string | Subprocess_run string | Print_total_time

datatype py_value = PyNone | PyInt int | PyStr string | PyBool bool

definition blender_cmd_of :: "string \<Rightarrow> string \<Rightarrow> int \<Rightarrow> string \<Rightarrow> bool \<Rightarrow> bool \<Rightarrow> string" where
  "blender_cmd_of script room_name step_number ground_truth fast_mode skip_save =
     ''python '' @ script @ '' --room_name '' @ room_name
       @ '' --step_number '' @ str_int step_number @ '' --ground_truth '' @ ground_truth
       @ (if fast_mode then '' --fast_mode true'' else [])
       @ (if skip_save then '' --skip_save true'' else [])"

definition render_output_of :: "string \<Rightarrow> int \<Rightarrow> string" where
  "render_output_of room_path step_number =
     path_join room_path (''render_output_step_'' @ str_int step_number @ ''.png'')"

text \<open>
  The body of the \<^verbatim>\<open>try\<close> block: the events, and either the exception that left the block
  or the value a \<^verbatim>\<open>return\<close> or the end of the block gave.
\<close>

definition try_body ::
  "os_env \<Rightarrow> string \<Rightarrow> string \<Rightarrow> int \<Rightarrow> string \<Rightarrow> bool \<Rightarrow> bool \<Rightarrow>
   outer_event list \<times> (string + py_value)" where
  "try_body env PROJECT_ROOT room_name step_number ground_truth fast_mode skip_save =
     (let room_path = path_join (ROOMS_FOLDER PROJECT_ROOT) room_name in
      if \<not> path_exists env room_path
      then ([Print (''Error: Room folder '' @ room_path @ '' does not exist'')], Inr PyNone)
      else
      let backtracked_json_path = path_join room_path ''scene_graph-backtracked.json'' in
      if \<not> path_exists env backtracked_json_path
      then ([Print (''Error: Backtracked JSON file '' @ backtracked_json_path @ '' does not exist'')],
            Inr PyNone)
      else
      let blender_cmd = blender_cmd_of (PLACE_IN_BLENDER_SCRIPT PROJECT_ROOT) room_name step_number
                          ground_truth fast_mode skip_save;
          before = [Print (''Processing room: '' @ room_name),
                    Print (''Using scene graph: '' @ backtracked_json_path),
                    Print (''Running: '' @ blender_cmd),
                    Subprocess_run blender_cmd]
      in case subprocess_run env blender_cmd of
           Raised e \<Rightarrow> (before, Inl e)
         | CompletedProcess returncode out err \<Rightarrow>
             (let shown = before @ [Print ''BLENDER TIME DELAY OUTPUT'', Print out] in
              if returncode \<noteq> 0
              then (shown @ [Print (''Error running place_in_blender.py: '' @ err)], Inr PyNone)
              else
              let render_output = render_output_of room_path step_number in
              (shown @ [Print ''Blender processing completed successfully'',
                        (if path_exists_after env render_output
                         then Print (''Render output generated: '' @ render_output)
                         else Print (''Warning: Expected render output not found at '' @ render_output)),
                        Print_total_time],
               Inr PyNone)))"

text \<open>
  \<^verbatim>\<open>run_local_metaverse\<close>: the \<^verbatim>\<open>try\<close> block with its handler, which prints the exception
  and lets the function end. The events, and the outcome: \<open>Inl\<close> an exception that leaves
  the function, \<open>Inr\<close> the value it returns.
\<close>

definition run_local_metaverse ::
  "os_env \<Rightarrow> string \<Rightarrow> string \<Rightarrow> int \<Rightarrow> string \<Rightarrow> bool \<Rightarrow> bool \<Rightarrow>
   outer_event list \<times> (string + py_value)" where
  "run_local_metaverse env PROJECT_ROOT room_name step_number ground_truth fast_mode skip_save =
     (case try_body env PROJECT_ROOT room_name step_number ground_truth fast_mode skip_save of
        (events, Inl e) \<Rightarrow> (events @ [Print (''Error in run_local_metaverse: '' @ e)], Inr PyNone)
      | (events, Inr v) \<Rightarrow> (events, Inr v))"

text \<open>
  The exit status of the outer process once its arguments are parsed: line 110 calls the
  function and drops its value; an exception that left it would end the process with
  status 1, and the end of the script gives 0.
\<close>

definition main_exit_status ::
  "os_env \<Rightarrow> string \<Rightarrow> string \<Rightarrow> int \<Rightarrow> string \<Rightarrow> bool \<Rightarrow> bool \<Rightarrow> int" where
  "main_exit_status env PROJECT_ROOT room_name step_number ground_truth fast_mode skip_save =
     (case snd (run_local_metaverse env PROJECT_ROOT room_name step_number ground_truth
                  fast_mode skip_save) of
        Inl e \<Rightarrow> 1
      | Inr v \<Rightarrow> 0)"

section \<open>The command lines\<close>

text \<open>
  The two \<^verbatim>\<open>argparse\<close> parsers as the scripts declare them. \<open>Store t\<close> is the default
  action with \<^verbatim>\<open>type=t\<close>: the flag takes one value from the command line and converts it.
  \<open>Store_true\<close> is \<^verbatim>\<open>action="store_true"\<close>: the flag takes no value. \<open>Help\<close> is the action
  of \<^verbatim>\<open>-h\<close> and \<^verbatim>\<open>--help\<close>, which \<^verbatim>\<open>ArgumentParser\<close> adds by itself, before the
  script's own arguments, when it is built without \<^verbatim>\<open>add_help=False\<close>, as both are.
\<close>

datatype arg_type = Type_str | Type_int | Type_strtobool

datatype arg_action = Store arg_type | Store_true | Help

record argument =
  option_strings :: "string list"
  arg_action :: arg_action
  arg_required :: bool
  arg_default :: py_value

definition help_action :: argument where
  "help_action =
     \<lparr>option_strings = [''-h'', ''--help''], arg_action = Help, arg_required = False,
      arg_default = PyNone\<rparr>"

text \<open>Lines 103 to 107 of the outer script.\<close>

definition outer_arguments :: "argument list" where
  "outer_arguments =
     [\<lparr>option_strings = [''--room_name''], arg_action = Store Type_str, arg_required = True,
         arg_default = PyNone\<rparr>,
      \<lparr>option_strings = [''--step_number''], arg_action = Store Type_int, arg_required = False,
         arg_default = PyInt 1\<rparr>,
      \<lparr>option_strings = [''--ground_truth''], arg_action = Store Type_str, arg_required = False,
         arg_default = PyStr ''false''\<rparr>,
      \<lparr>option_strings = [''--fast_mode''], arg_action = Store_true, arg_required = False,
         arg_default = PyBool False\<rparr>,
      \<lparr>option_strings = [''--skip_save''], arg_action = Store_true, arg_required = False,
         arg_default = PyBool False\<rparr>]"

definition outer_parser :: "argument list" where
  "outer_parser = help_action # outer_arguments"

text \<open>Lines 12 to 16 of the inner script.\<close>

definition inner_arguments :: "argument list" where
  "inner_arguments =
     [\<lparr>option_strings = [''--room_name''], arg_action = Store Type_str, arg_required = True,
         arg_default = PyNone\<rparr>,
      \<lparr>option_strings = [''--step_number''], arg_action = Store Type_int, arg_required = True,
         arg_default = PyNone\<rparr>,
      \<lparr>option_strings = [''--ground_truth''], arg_action = Store Type_strtobool, arg_required = True,
         arg_default = PyNone\<rparr>,
      \<lparr>option_strings = [''--fast_mode''], arg_action = Store Type_strtobool, arg_required = False,
         arg_default = PyBool False\<rparr>,
      \<lparr>option_strings = [''--skip_save''], arg_action = Store Type_strtobool, arg_required = False,
         arg_default = PyBool False\<rparr>]"

definition inner_parser :: "argument list" where
  "inner_parser = help_action # inner_arguments"

text \<open>
  \<^verbatim>\<open>distutils.util.strtobool\<close> under \<^verbatim>\<open>bool\<close>: the value is lower-cased and looked up
  in two fixed lists; anything else raises \<^verbatim>\<open>ValueError\<close>. No character outside A to Z
  lower-cases into a letter of these words.
\<close>

definition lower_chr :: "char \<Rightarrow> char" where
  "lower_chr c =
     (if 65 \<le> (of_char c :: nat) \<and> (of_char c :: nat) \<le> 90 then char_of ((of_char c :: nat) + 32)
      else c)"

definition strtobool :: "string \<Rightarrow> py_error + bool" where
  "strtobool val =
     (let v = map lower_chr val in
      if v \<in> set [''y'', ''yes'', ''t'', ''true'', ''on'', ''1''] then Inr True
      else if v \<in> set [''n'', ''no'', ''f'', ''false'', ''off'', ''0''] then Inr False
      else Inl ValueError)"

text \<open>
  The conversion of one value. Python's \<^verbatim>\<open>int\<close> on a string is a parameter, \<open>py_int\<close>.
\<close>

definition convert :: "(string \<Rightarrow> int option) \<Rightarrow> arg_type \<Rightarrow> string \<Rightarrow> py_error + py_value" where
  "convert py_int t v =
     (case t of
        Type_str \<Rightarrow> Inr (PyStr v)
      | Type_int \<Rightarrow> (case py_int v of None \<Rightarrow> Inl ValueError | Some i \<Rightarrow> Inr (PyInt i))
      | Type_strtobool \<Rightarrow> (case strtobool v of Inl e \<Rightarrow> Inl e | Inr b \<Rightarrow> Inr (PyBool b)))"

subsection \<open>The library's parsing\<close>

text \<open>
  What follows is \<^verbatim>\<open>argparse\<close> of CPython 3.11 (the inner script imports
  \<^verbatim>\<open>distutils\<close>, which later versions do not have), for parsers like these two: options
  only, each taking one value or none, prefix character \<^verbatim>\<open>-\<close>, abbreviations allowed.
  The text of an error message is not modelled, only its kind and what it is about.
  Tokens are taken to be ASCII.
\<close>

text \<open>\<^verbatim>\<open>_option_string_actions\<close>: the dictionary from option string to action.\<close>

definition option_string_actions :: "argument list \<Rightarrow> (string, argument) dict" where
  "option_string_actions parser = concat (map (\<lambda>a. map (\<lambda>s. (s, a)) (option_strings a)) parser)"

text \<open>The number of values an action takes (\<^verbatim>\<open>nargs\<close>): one for a store, none otherwise.\<close>

definition nargs :: "argument \<Rightarrow> nat" where
  "nargs a = (case arg_action a of Store t \<Rightarrow> 1 | Store_true \<Rightarrow> 0 | Help \<Rightarrow> 0)"

text \<open>
  The attribute an option is stored under: its first long option string, or else its first
  one, without the leading dashes and with \<^verbatim>\<open>_\<close> for \<^verbatim>\<open>-\<close>.
\<close>

definition dest :: "argument \<Rightarrow> string" where
  "dest a =
     (let dest_option_string =
        (case filter (\<lambda>s. length s > 1 \<and> s ! 1 = CHR ''-'') (option_strings a) of
           [] \<Rightarrow> (case option_strings a of [] \<Rightarrow> [] | s # _ \<Rightarrow> s)
         | s # _ \<Rightarrow> s)
      in map (\<lambda>c. if c = CHR ''-'' then CHR ''_'' else c)
           (dropWhile (\<lambda>c. c = CHR ''-'') dest_option_string))"

text \<open>
  \<^verbatim>\<open>_negative_number_matcher\<close>, the pattern \<^verbatim>\<open>^-\d+$|^-\d*\.\d+$\<close>, where \<^verbatim>\<open>$\<close> also
  matches before a newline that ends the string.
\<close>

definition is_digit :: "char \<Rightarrow> bool" where
  "is_digit c = (48 \<le> (of_char c :: nat) \<and> (of_char c :: nat) \<le> 57)"

definition negative_number :: "string \<Rightarrow> bool" where
  "negative_number tok =
     (case tok of
        [] \<Rightarrow> False
      | c # cs0 \<Rightarrow>
          (let cs = (if cs0 \<noteq> [] \<and> last cs0 = CHR 0x0A then butlast cs0 else cs0) in
           c = CHR ''-'' \<and>
           ((cs \<noteq> [] \<and> list_all is_digit cs) \<or>
            (let after = dropWhile is_digit cs
             in (case after of
                   [] \<Rightarrow> False
                 | d # fs \<Rightarrow> d = CHR ''.'' \<and> fs \<noteq> [] \<and> list_all is_digit fs)))))"

definition has_negative_number_optionals :: "argument list \<Rightarrow> bool" where
  "has_negative_number_optionals parser =
     list_ex (\<lambda>a. list_ex negative_number (option_strings a)) parser"

text \<open>
  What a token is taken for: a value (\<open>Positional\<close>), an option with its action, the option
  string it stands for, whether it was split at a \<^verbatim>\<open>=\<close> and the value written with it, an
  option the parser does not have (no action), or an abbreviation of several options.
\<close>

datatype optional =
    Positional
  | Optional "argument option" string bool "string option"
  | Ambiguous "string list"

text \<open>\<^verbatim>\<open>_get_option_tuples\<close>: the options a token may abbreviate.\<close>

definition get_option_tuples ::
  "argument list \<Rightarrow> string \<Rightarrow> (argument \<times> string \<times> bool \<times> string option) list" where
  "get_option_tuples parser option_string =
     (if option_string ! 1 = CHR ''-''
      then (let option_prefix = takeWhile (\<lambda>c. c \<noteq> CHR ''='') option_string;
                sep = (CHR ''='' \<in> set option_string);
                explicit_arg = (if sep
                                then Some (drop 1 (dropWhile (\<lambda>c. c \<noteq> CHR ''='') option_string))
                                else None)
            in concat (map (\<lambda>(s, a). if startswith s option_prefix then [(a, s, sep, explicit_arg)]
                                       else [])
                         (option_string_actions parser)))
      else (let option_prefix = option_string;
                short_option_prefix = take 2 option_string;
                short_explicit_arg = drop 2 option_string
            in concat (map (\<lambda>(s, a). if s = short_option_prefix
                                       then [(a, s, False, Some short_explicit_arg)]
                                       else if startswith s option_prefix then [(a, s, False, None)]
                                       else [])
                         (option_string_actions parser))))"

text \<open>\<^verbatim>\<open>_parse_optional\<close>\<close>

definition parse_optional :: "argument list \<Rightarrow> string \<Rightarrow> optional" where
  "parse_optional parser arg_string =
     (if arg_string = [] then Positional
      else if hd arg_string \<noteq> CHR ''-'' then Positional
      else (case map_of (option_string_actions parser) arg_string of
              Some action \<Rightarrow> Optional (Some action) arg_string False None
            | None \<Rightarrow>
      if length arg_string = 1 then Positional
      else (let option_string = takeWhile (\<lambda>c. c \<noteq> CHR ''='') arg_string;
                sep = (CHR ''='' \<in> set arg_string);
                explicit_arg = drop 1 (dropWhile (\<lambda>c. c \<noteq> CHR ''='') arg_string)
            in case (if sep then map_of (option_string_actions parser) option_string else None) of
                 Some action \<Rightarrow> Optional (Some action) option_string sep (Some explicit_arg)
               | None \<Rightarrow>
                   (case get_option_tuples parser arg_string of
                      [] \<Rightarrow>
                        if negative_number arg_string \<and> \<not> has_negative_number_optionals parser
                        then Positional
                        else if CHR '' '' \<in> set arg_string then Positional
                        else Optional None arg_string False None
                    | [(action, s, sp, e)] \<Rightarrow> Optional (Some action) s sp e
                    | t1 # t2 # ts \<Rightarrow> Ambiguous (map (\<lambda>(action, s, sp, e). s) (t1 # t2 # ts))))))"

datatype parse_error =
    Ambiguous_option string "string list"
  | Expected_one_argument "string list"
  | Invalid_value "string list" string
  | Ignored_explicit_argument "string list" string
  | Required_missing "string list list"
  | Unrecognized_arguments "string list"

text \<open>
  How a run of the parser ends: with the namespace, with an error (the process exits with
  status 2), or with the help text printed (status 0).
\<close>

datatype parse_outcome =
    Namespace "(string, py_value) dict"
  | Parse_error parse_error
  | Help_exit

text \<open>
  The first pass over the command line gives every token its letter of the pattern:
  \<open>Pat_O\<close> for an option, \<open>Pat_A\<close> for a value, \<open>Pat_dash\<close> for the token \<^verbatim>\<open>--\<close>, after which all
  tokens are values. An ambiguous abbreviation ends the parse here.
\<close>

datatype pattern = Pat_O "argument option" string bool "string option" | Pat_A | Pat_dash

fun classify :: "argument list \<Rightarrow> string list \<Rightarrow> parse_error + (string \<times> pattern) list" where
  "classify parser [] = Inr []"
| "classify parser (arg_string # rest) =
     (if arg_string = ''--'' then Inr ((arg_string, Pat_dash) # map (\<lambda>s. (s, Pat_A)) rest)
      else (case parse_optional parser arg_string of
              Ambiguous matches \<Rightarrow> Inl (Ambiguous_option arg_string matches)
            | Positional \<Rightarrow>
                (case classify parser rest of
                   Inl e \<Rightarrow> Inl e
                 | Inr ps \<Rightarrow> Inr ((arg_string, Pat_A) # ps))
            | Optional action s sep e \<Rightarrow>
                (case classify parser rest of
                   Inl e \<Rightarrow> Inl e
                 | Inr ps \<Rightarrow> Inr ((arg_string, Pat_O action s sep e) # ps))))"

text \<open>
  The loop of \<^verbatim>\<open>consume_optional\<close> for an option written with a value in the same
  token. A short option that takes no value may be followed by further short options
  (\<^verbatim>\<open>-xyz\<close>). The result: an error; the actions to take, with their values, and the
  rest of the token if it is no option; or the actions so far and a last one that looks
  for its value among the next tokens.
\<close>

datatype explicit_result =
    Explicit_error parse_error
  | Explicit_done "(argument \<times> string list) list" "string option"
  | Explicit_open "(argument \<times> string list) list" argument

function explicit_loop ::
  "argument list \<Rightarrow> argument \<Rightarrow> string \<Rightarrow> bool \<Rightarrow> string \<Rightarrow> (argument \<times> string list) list \<Rightarrow>
   explicit_result" where
  "explicit_loop parser action option_string sep explicit_arg action_tuples =
     (if nargs action = 0 \<and> option_string ! 1 \<noteq> CHR ''-'' \<and> explicit_arg \<noteq> []
      then (if sep \<or> hd explicit_arg = CHR ''-''
            then Explicit_error (Ignored_explicit_argument (option_strings action) explicit_arg)
            else (case map_of (option_string_actions parser) [CHR ''-'', hd explicit_arg] of
                    None \<Rightarrow>
                      Explicit_done (action_tuples @ [(action, [])]) (Some (CHR ''-'' # explicit_arg))
                  | Some action' \<Rightarrow>
                      if tl explicit_arg = []
                      then Explicit_open (action_tuples @ [(action, [])]) action'
                      else if hd (tl explicit_arg) = CHR ''=''
                      then explicit_loop parser action' [CHR ''-'', hd explicit_arg] True
                             (tl (tl explicit_arg)) (action_tuples @ [(action, [])])
                      else explicit_loop parser action' [CHR ''-'', hd explicit_arg] False
                             (tl explicit_arg) (action_tuples @ [(action, [])])))
      else if nargs action = 1
      then Explicit_done (action_tuples @ [(action, [explicit_arg])]) None
      else Explicit_error (Ignored_explicit_argument (option_strings action) explicit_arg))"
  by pat_completeness auto
termination
  by (relation "measure (\<lambda>(parser, action, option_string, sep, explicit_arg, action_tuples).
        length explicit_arg)") (auto simp: neq_Nil_conv)

declare explicit_loop.simps [simp del]

text \<open>
  \<^verbatim>\<open>take_action\<close> for a list of actions with their values, in order: a store converts
  its value and stores it, a \<^verbatim>\<open>store_true\<close> stores \<^verbatim>\<open>True\<close>, help prints and exits.
  The result is the attributes set so far, or how the parse ended.
\<close>

fun take_actions ::
  "(string \<Rightarrow> int option) \<Rightarrow> (argument \<times> string list) list \<Rightarrow> (string, py_value) dict \<Rightarrow>
   parse_outcome + (string, py_value) dict" where
  "take_actions py_int [] seen = Inr seen"
| "take_actions py_int ((action, args) # tuples) seen =
     (case arg_action action of
        Help \<Rightarrow> Inl Help_exit
      | Store_true \<Rightarrow> take_actions py_int tuples (dict_set (dest action) (PyBool True) seen)
      | Store t \<Rightarrow>
          (case args of
             [arg_string] \<Rightarrow>
               (case convert py_int t arg_string of
                  Inl e \<Rightarrow> Inl (Parse_error (Invalid_value (option_strings action) arg_string))
                | Inr value \<Rightarrow> take_actions py_int tuples (dict_set (dest action) value seen))
           | _ \<Rightarrow> Inl (Parse_error (Expected_one_argument (option_strings action)))))"

text \<open>
  The end of the parse: a required action that was not seen is an error, then a token that
  nothing took is one; otherwise every action but help has its attribute, with the value
  stored or else the default. (A default that is a string would be converted; the one
  such default, of the outer \<^verbatim>\<open>--ground_truth\<close>, is converted by \<^verbatim>\<open>str\<close>.)
\<close>

definition finish ::
  "argument list \<Rightarrow> (string, py_value) dict \<Rightarrow> string list \<Rightarrow> parse_outcome" where
  "finish parser seen extras =
     (let required_actions =
            filter (\<lambda>a. arg_required a \<and> \<not> dict_has (dest a) seen) parser
      in if required_actions \<noteq> [] then Parse_error (Required_missing (map option_strings required_actions))
         else if extras \<noteq> [] then Parse_error (Unrecognized_arguments extras)
         else Namespace (map (\<lambda>a. (dest a, case map_of seen (dest a) of
                                               None \<Rightarrow> arg_default a
                                             | Some value \<Rightarrow> value))
                            (filter (\<lambda>a. arg_action a \<noteq> Help) parser)))"

text \<open>
  The second pass: options are consumed from left to right, each taking its action at
  once; a token that no option takes goes to the extras.
\<close>

fun consume ::
  "(string \<Rightarrow> int option) \<Rightarrow> argument list \<Rightarrow> (string \<times> pattern) list \<Rightarrow>
   (string, py_value) dict \<Rightarrow> string list \<Rightarrow> parse_outcome" where
  "consume py_int parser [] seen extras = finish parser seen extras"
| "consume py_int parser ((arg_string, Pat_A) # rest) seen extras =
     consume py_int parser rest seen (extras @ [arg_string])"
| "consume py_int parser ((arg_string, Pat_dash) # rest) seen extras =
     consume py_int parser rest seen (extras @ [arg_string])"
| "consume py_int parser ((arg_string, Pat_O None s sep e) # rest) seen extras =
     consume py_int parser rest seen (extras @ [arg_string])"
| "consume py_int parser ((arg_string, Pat_O (Some action) s sep None) # rest) seen extras =
     (if nargs action = 0
      then (case take_actions py_int [(action, [])] seen of
              Inl outcome \<Rightarrow> outcome
            | Inr seen' \<Rightarrow> consume py_int parser rest seen' extras)
      else (case rest of
              (v, Pat_A) # rest' \<Rightarrow>
                (case take_actions py_int [(action, [v])] seen of
                   Inl outcome \<Rightarrow> outcome
                 | Inr seen' \<Rightarrow> consume py_int parser rest' seen' extras)
            | _ \<Rightarrow> Parse_error (Expected_one_argument (option_strings action))))"
| "consume py_int parser ((arg_string, Pat_O (Some action) s sep (Some explicit_arg)) # rest) seen extras =
     (case explicit_loop parser action s sep explicit_arg [] of
        Explicit_error e \<Rightarrow> Parse_error e
      | Explicit_done action_tuples extra \<Rightarrow>
          (case take_actions py_int action_tuples seen of
             Inl outcome \<Rightarrow> outcome
           | Inr seen' \<Rightarrow>
               consume py_int parser rest seen'
                 (extras @ (case extra of None \<Rightarrow> [] | Some x \<Rightarrow> [x])))
      | Explicit_open action_tuples action' \<Rightarrow>
          (if nargs action' = 0
           then (case take_actions py_int (action_tuples @ [(action', [])]) seen of
                   Inl outcome \<Rightarrow> outcome
                 | Inr seen' \<Rightarrow> consume py_int parser rest seen' extras)
           else (case rest of
                   (v, Pat_A) # rest' \<Rightarrow>
                     (case take_actions py_int (action_tuples @ [(action', [v])]) seen of
                        Inl outcome \<Rightarrow> outcome
                      | Inr seen' \<Rightarrow> consume py_int parser rest' seen' extras)
                 | _ \<Rightarrow> Parse_error (Expected_one_argument (option_strings action')))))"

text \<open>\<^verbatim>\<open>parse_args\<close>\<close>

definition parse_args :: "(string \<Rightarrow> int option) \<Rightarrow> argument list \<Rightarrow> string list \<Rightarrow> parse_outcome" where
  "parse_args py_int parser argv =
     (case classify parser argv of
        Inl e \<Rightarrow> Parse_error e
      | Inr ps \<Rightarrow> consume py_int parser ps [] [])"

declare str_nat.simps [simp del]

section \<open>Example inputs\<close>

definition example_item :: "string \<Rightarrow> real \<Rightarrow> scene_item" where
  "example_item ident angle =
     \<lparr>new_object_id = ident,
      position = \<lparr>pos_x = 1, pos_y = 2, pos_z = 0\<rparr>,
      rotation = \<lparr>z_angle = angle\<rparr>,
      size_in_meters = \<lparr>length_m = 2, width_m = 1, height_m = 1\<rparr>\<rparr>"

definition example_data :: "scene_item list" where
  "example_data =
     [example_item ''south_wall'' 0, example_item ''chair_1'' 90,
      example_item ''ceiling'' 0, example_item ''sofa'' 0]"

definition example_object :: "string \<Rightarrow> real \<Rightarrow> blender_object" where
  "example_object obj_name width =
     \<lparr>name = obj_name, obj_type = MESH, location = (0, 0, 0), rotate_z_calls = [],
      obj_scale = (1, 1, 1), dimensions = \<lparr>vec_x = 4, vec_y = width, vec_z = 2\<rparr>\<rparr>"

definition example_scene :: "blender_object list" where
  "example_scene =
     [example_object ''chair_1-joined'' 1,
      (example_object ''Camera'' 1)\<lparr>obj_type := OTHER\<rparr>,
      example_object ''lamp'' 1,
      example_object ''sofa.001'' 2]"

definition example_placed :: "blender_object list" where
  "example_placed =
     [(example_object ''chair_1-joined'' 1)
        \<lparr>location := (1, 2, 0), rotate_z_calls := [(90 / 180) * pi + pi], obj_scale := (2 / 4, 1 / 1, 1 / 2)\<rparr>,
      example_object ''lamp'' 1,
      (example_object ''sofa.001'' 2)
        \<lparr>location := (1, 2, 0), rotate_z_calls := [(0 / 180) * pi + pi], obj_scale := (2 / 4, 1 / 2, 1 / 2)\<rparr>]"

definition example_py_int :: "string \<Rightarrow> int option" where
  "example_py_int s = (if s = ''1'' then Some 1 else if s = ''2'' then Some 2 else None)"

definition example_walk :: walk where
  "example_walk =
     [(''assets'', [''old''], [''chair_1.glb'', ''notes.txt'', ''sofa.v2.glb'']),
      (''assets/old'', [], [''chair_1.glb''])]"

definition example_env :: "bool \<Rightarrow> bool \<Rightarrow> run_result \<Rightarrow> os_env" where
  "example_env room_there json_there result =
     \<lparr>path_exists = (\<lambda>p. if p = ''/proj/3d_utlis/data/room_97'' then room_there
                          else if p = ''/proj/3d_utlis/data/room_97/scene_graph-backtracked.json''
                          then json_there else False),
      subprocess_run = (\<lambda>cmd. result),
      path_exists_after = (\<lambda>p. False)\<rparr>"

text \<open>
  A run in ground-truth mode that went well: afterwards the inner script's render is there,
  and no other file asked about.
\<close>

definition example_ground_truth_env :: os_env where
  "example_ground_truth_env =
     (example_env True True (CompletedProcess 0 ''out'' []))
       \<lparr>path_exists_after :=
          (\<lambda>p. p = ''/proj/3d_utlis/data/room_97/render_output_groundtruth1.png'')\<rparr>"

section \<open>Dictionary and string facts\<close>

lemma map_of_dict_set: "map_of (dict_set k v d) = (map_of d)(k \<mapsto> v)"
  by (induction d) (auto simp: fun_eq_iff)

lemma split_not_Nil: "split s sep \<noteq> []"
  by (induction s) (auto split: list.splits)

lemma hd_split: "hd (split s sep) = takeWhile (\<lambda>c. c \<noteq> sep) s"
  by (induction s) (auto split: list.splits simp: split_not_Nil)

lemma endswith_iff: "endswith s suf \<longleftrightarrow> (\<exists>p. s = p @ suf)"
proof
  assume "endswith s suf"
  then have "s = take (length s - length suf) s @ suf"
    by (metis append_take_drop_id endswith_def)
  then show "\<exists>p. s = p @ suf" ..
next
  assume "\<exists>p. s = p @ suf"
  then show "endswith s suf"
    by (auto simp: endswith_def)
qed

lemma path_join_suffix: "\<exists>p. path_join rootdir file = p @ file"
proof -
  have "path_join rootdir file = [] @ file \<or> path_join rootdir file = rootdir @ file
      \<or> path_join rootdir file = (rootdir @ ''/'') @ file"
    by (simp add: path_join_def)
  then show ?thesis by blast
qed

lemma endswith_path_join: "endswith file suf \<Longrightarrow> endswith (path_join rootdir file) suf"
proof -
  assume "endswith file suf"
  then obtain q where q: "file = q @ suf"
    by (auto simp: endswith_iff)
  obtain p where "path_join rootdir file = p @ file"
    using path_join_suffix by blast
  with q have "path_join rootdir file = (p @ q) @ suf"
    by simp
  then show ?thesis
    unfolding endswith_iff by blast
qed

section \<open>Loading the scene graph\<close>

lemma load_json_snoc: "load_json (xs @ [x]) = load_step x (load_json xs)"
  by (simp add: load_json_def)

text \<open>The loaded dictionary, key by key: the last record of that identifier, unless it is a label.\<close>

lemma map_of_load_json:
  "map_of (load_json data) k =
     (if k \<in> set structural_labels then None
      else List.find (\<lambda>r. new_object_id r = k) (rev data))"
proof (induction data rule: rev_induct)
  case Nil
  show ?case by (simp add: load_json_def)
next
  case (snoc x xs)
  show ?case
    unfolding load_json_snoc
    using snoc.IH by (auto simp: load_step_def map_of_dict_set)
qed

lemma find_Some_mem: "List.find P xs = Some x \<Longrightarrow> x \<in> set xs \<and> P x"
  by (induction xs) (auto split: if_splits)

lemma find_distinct_key:
  assumes "distinct (map f xs)" and "r \<in> set xs"
  shows "List.find (\<lambda>r'. f r' = f r) (rev xs) = Some r"
proof -
  have "List.find (\<lambda>r'. f r' = f r) (rev xs) \<noteq> None"
    using assms(2) by (auto simp: find_None_iff)
  then obtain r' where r': "List.find (\<lambda>r'. f r' = f r) (rev xs) = Some r'"
    by blast
  then have "r' \<in> set xs" and "f r' = f r"
    using find_Some_mem [OF r'] by auto
  moreover have "inj_on f (set xs)"
    using assms(1) by (simp add: distinct_map)
  ultimately have "r' = r"
    using assms(2) by (auto dest: inj_onD)
  with r' show ?thesis by simp
qed

text \<open>
  C3. Loading the scene graph leaves out every record whose identifier is one of the six
  structural labels. Every other record's identifier becomes a key, bound to a record of
  the scene graph with that identifier; where the identifiers of the scene graph are
  unique, as the data model has them, it is bound to the record itself. Nothing else is in
  the dictionary.
\<close>

theorem load_json_filters_structural_labels:
  "(\<forall>r \<in> set data. new_object_id r \<in> set structural_labels \<longrightarrow>
       \<not> dict_has (new_object_id r) (load_json data))
   \<and> (\<forall>r \<in> set data. new_object_id r \<notin> set structural_labels \<longrightarrow>
       (\<exists>r' \<in> set data. new_object_id r' = new_object_id r
            \<and> map_of (load_json data) (new_object_id r) = Some r'))
   \<and> (distinct (map new_object_id data) \<longrightarrow>
       (\<forall>r \<in> set data. new_object_id r \<notin> set structural_labels \<longrightarrow>
          map_of (load_json data) (new_object_id r) = Some r))
   \<and> (\<forall>k r. map_of (load_json data) k = Some r \<longrightarrow>
          r \<in> set data \<and> new_object_id r = k \<and> k \<notin> set structural_labels)"
proof (intro conjI ballI impI allI)
  fix r assume "r \<in> set data" "new_object_id r \<in> set structural_labels"
  then show "\<not> dict_has (new_object_id r) (load_json data)"
    by (simp add: dict_has_def map_of_load_json)
next
  fix r assume r: "r \<in> set data" "new_object_id r \<notin> set structural_labels"
  have "List.find (\<lambda>r'. new_object_id r' = new_object_id r) (rev data) \<noteq> None"
    using r(1) by (auto simp: find_None_iff)
  then obtain r' where r': "List.find (\<lambda>r'. new_object_id r' = new_object_id r) (rev data) = Some r'"
    by blast
  then have "r' \<in> set data" "new_object_id r' = new_object_id r"
    using find_Some_mem [OF r'] by auto
  with r r' show "\<exists>r' \<in> set data. new_object_id r' = new_object_id r
            \<and> map_of (load_json data) (new_object_id r) = Some r'"
    by (auto simp: map_of_load_json)
next
  fix r assume "distinct (map new_object_id data)" "r \<in> set data"
    "new_object_id r \<notin> set structural_labels"
  then show "map_of (load_json data) (new_object_id r) = Some r"
    by (simp add: map_of_load_json find_distinct_key)
next
  fix k r assume "map_of (load_json data) k = Some r"
  then have k: "k \<notin> set structural_labels"
    and f: "List.find (\<lambda>r. new_object_id r = k) (rev data) = Some r"
    by (auto simp: map_of_load_json split: if_splits)
  from find_Some_mem [OF f] k
  show "r \<in> set data" and "new_object_id r = k" and "k \<notin> set structural_labels"
    by simp_all
qed

theorem load_json_filters_witness:
  "distinct (map new_object_id example_data)
   \<and> \<not> dict_has ''south_wall'' (load_json example_data)
   \<and> \<not> dict_has ''ceiling'' (load_json example_data)
   \<and> map_of (load_json example_data) ''chair_1'' = Some (example_item ''chair_1'' 90)
   \<and> map_of (load_json example_data) ''sofa'' = Some (example_item ''sofa'' 0)"
  using load_json_filters_structural_labels [of example_data]
  by (simp add: example_data_def example_item_def structural_labels_def)

section \<open>The asset files found\<close>

lemma is_glb_for_pair:
  "is_glb_for k (rootdir, f) \<longleftrightarrow> endswith f ''.glb'' \<and> glb_key f = k"
  by (simp add: is_glb_for_def)

lemma map_of_glb_file_step:
  "map_of (glb_file_step rootdir file g) k =
     (case map_of g k of
        Some v \<Rightarrow> Some v
      | None \<Rightarrow> if endswith file ''.glb'' \<and> glb_key file = k
                then Some (path_join rootdir file) else None)"
  by (auto simp: glb_file_step_def Let_def dict_has_def map_of_dict_set split: option.splits)

lemma fold_glb_dir_step:
  "fold glb_dir_step w g = fold (\<lambda>(rootdir, file). glb_file_step rootdir file) (walk_files w) g"
proof (induction w arbitrary: g)
  case Nil
  show ?case by (simp add: walk_files_def)
next
  case (Cons entry w)
  obtain rootdir dirs files where entry: "entry = (rootdir, dirs, files)"
    by (cases entry) auto
  have "walk_files (entry # w) = map (\<lambda>file. (rootdir, file)) files @ walk_files w"
    by (simp add: walk_files_def entry)
  moreover have "fold (\<lambda>(rootdir, file). glb_file_step rootdir file) (map (\<lambda>file. (rootdir, file)) files) g
      = fold (glb_file_step rootdir) files g"
    by (simp add: fold_map comp_def)
  ultimately show ?case
    using Cons.IH by (simp add: glb_dir_step_def entry)
qed

lemma map_of_fold_glb_file_step:
  "map_of (fold (\<lambda>(rootdir, file). glb_file_step rootdir file) entries g) k =
     (case map_of g k of
        Some v \<Rightarrow> Some v
      | None \<Rightarrow> map_option (\<lambda>(rootdir, file). path_join rootdir file)
                  (List.find (is_glb_for k) entries))"
proof (induction entries arbitrary: g)
  case Nil
  show ?case by (simp split: option.splits)
next
  case (Cons e entries)
  obtain rootdir f where e: "e = (rootdir, f)"
    by (cases e) auto
  show ?case
    by (simp add: Cons.IH e map_of_glb_file_step is_glb_for_pair split: option.splits)
qed

text \<open>
  C8. \<^verbatim>\<open>find_glb_files\<close> binds a key to the path of the first file of the walk that ends in
  \<^verbatim>\<open>.glb\<close> and whose name, cut at its first dot, is the key; later files of the same key
  change nothing. Every file of the walk that ends in \<^verbatim>\<open>.glb\<close> has its key in the
  result, and every value of the result ends in \<^verbatim>\<open>.glb\<close>.
\<close>

theorem find_glb_files_first_wins:
  "map_of (find_glb_files w) k =
     map_option (\<lambda>(rootdir, file). path_join rootdir file) (List.find (is_glb_for k) (walk_files w))
   \<and> glb_key file = takeWhile (\<lambda>c. c \<noteq> CHR ''.'') file
   \<and> (\<forall>rootdir f. (rootdir, f) \<in> set (walk_files w) \<and> endswith f ''.glb'' \<longrightarrow>
         dict_has (glb_key f) (find_glb_files w))
   \<and> (\<forall>v. map_of (find_glb_files w) k = Some v \<longrightarrow> endswith v ''.glb'')"
proof (intro conjI allI impI)
  show first: "map_of (find_glb_files w) k =
     map_option (\<lambda>(rootdir, file). path_join rootdir file) (List.find (is_glb_for k) (walk_files w))"
    by (simp add: find_glb_files_def fold_glb_dir_step map_of_fold_glb_file_step)
  show "glb_key file = takeWhile (\<lambda>c. c \<noteq> CHR ''.'') file"
    by (simp add: glb_key_def hd_split)
  {
    fix v assume "map_of (find_glb_files w) k = Some v"
    with first obtain rootdir f where f: "List.find (is_glb_for k) (walk_files w) = Some (rootdir, f)"
      and v: "v = path_join rootdir f"
      by (cases "List.find (is_glb_for k) (walk_files w)") auto
    from find_Some_mem [OF f] have "endswith f ''.glb''"
      by (simp add: is_glb_for_pair)
    with v show "endswith v ''.glb''"
      by (simp add: endswith_path_join)
  }
  {
    fix rootdir f assume a: "(rootdir, f) \<in> set (walk_files w) \<and> endswith f ''.glb''"
    have all: "map_of (find_glb_files w) k' =
       map_option (\<lambda>(rootdir, file). path_join rootdir file) (List.find (is_glb_for k') (walk_files w))" for k'
      by (simp add: find_glb_files_def fold_glb_dir_step map_of_fold_glb_file_step)
    have "List.find (is_glb_for (glb_key f)) (walk_files w) \<noteq> None"
      using a by (auto simp: find_None_iff is_glb_for_pair)
    then show "dict_has (glb_key f) (find_glb_files w)"
      by (simp add: dict_has_def all)
  }
qed

theorem find_glb_files_witness:
  "map_of (find_glb_files example_walk) ''chair_1'' = Some ''assets/chair_1.glb''
   \<and> map_of (find_glb_files example_walk) ''sofa'' = Some ''assets/sofa.v2.glb''
   \<and> (''assets/old'', ''chair_1.glb'') \<in> set (walk_files example_walk)
   \<and> endswith ''assets/chair_1.glb'' ''.glb''
   \<and> dict_has ''sofa'' (find_glb_files example_walk)"
  using find_glb_files_first_wins [of example_walk "''chair_1''" "''sofa.v2.glb''"]
    find_glb_files_first_wins [of example_walk "''sofa''" "''sofa.v2.glb''"]
  by (simp add: example_walk_def walk_files_def is_glb_for_def endswith_def glb_key_def path_join_def
      startswith_def dict_has_def)

section \<open>The assets imported\<close>

lemma import_step_pair:
  "import_step (k, v) glb (import_list, printed) =
     (case map_of glb k of
        Some p \<Rightarrow> (import_list @ [(p, k)], printed)
      | None \<Rightarrow> (import_list, printed @ [Print_line (''Warning: No GLB file found for '' @ k)]))"
  by (simp add: import_step_def)

lemma fold_import_step:
  "fold (\<lambda>entry. import_step entry glb) objs (import_list, printed) =
     (import_list @ concat (map (\<lambda>k. case map_of glb k of Some p \<Rightarrow> [(p, k)] | None \<Rightarrow> []) (map fst objs)),
      printed @ map (\<lambda>k. Print_line (''Warning: No GLB file found for '' @ k))
                  (filter (\<lambda>k. \<not> dict_has k glb) (map fst objs)))"
proof (induction objs arbitrary: import_list printed)
  case Nil
  show ?case by simp
next
  case (Cons entry objs)
  obtain k v where entry: "entry = (k, v)"
    by (cases entry) auto
  show ?case
    by (cases "map_of glb k") (simp_all add: entry import_step_pair Cons.IH dict_has_def)
qed

lemma map_Import_concat:
  "map (\<lambda>(file_path, object_name). Import_gltf file_path object_name)
     (concat (map (\<lambda>k. case map_of glb k of Some p \<Rightarrow> [(p, k)] | None \<Rightarrow> []) ks))
   = concat (map (\<lambda>k. case map_of glb k of Some p \<Rightarrow> [Import_gltf p k] | None \<Rightarrow> []) ks)"
  by (induction ks) (auto split: option.splits)

lemma batch_import_assets_trace:
  "batch_import_assets objs glb =
     Print_glb_file_paths glb
     # map (\<lambda>k. Print_line (''Warning: No GLB file found for '' @ k))
         (filter (\<lambda>k. \<not> dict_has k glb) (map fst objs))
     @ concat (map (\<lambda>k. case map_of glb k of Some p \<Rightarrow> [Import_gltf p k] | None \<Rightarrow> [])
         (map fst objs))"
  by (simp add: batch_import_assets_def fold_import_step map_Import_concat del: map_map)

text \<open>
  C4. \<^verbatim>\<open>batch_import_assets\<close> always runs to its end. After printing the file map it
  prints one warning for each object of the room whose identifier has no GLB file, in the
  room's order, and then imports, in the same order, exactly the objects whose identifier
  has one: an object with a file is imported under its identifier, an object without one
  gets its warning and no import.
\<close>

theorem batch_import_assets_skips_missing:
  "batch_import_assets objs glb =
     Print_glb_file_paths glb
     # map (\<lambda>k. Print_line (''Warning: No GLB file found for '' @ k))
         (filter (\<lambda>k. \<not> dict_has k glb) (map fst objs))
     @ concat (map (\<lambda>k. case map_of glb k of Some p \<Rightarrow> [Import_gltf p k] | None \<Rightarrow> [])
         (map fst objs))
   \<and> (\<forall>k \<in> fst ` set objs.
         (\<forall>p. map_of glb k = Some p \<longrightarrow> Import_gltf p k \<in> set (batch_import_assets objs glb))
       \<and> (\<not> dict_has k glb \<longrightarrow>
            Print_line (''Warning: No GLB file found for '' @ k) \<in> set (batch_import_assets objs glb)
            \<and> (\<forall>p. Import_gltf p k \<notin> set (batch_import_assets objs glb))))"
proof (intro conjI ballI allI impI)
  show "batch_import_assets objs glb =
     Print_glb_file_paths glb
     # map (\<lambda>k. Print_line (''Warning: No GLB file found for '' @ k))
         (filter (\<lambda>k. \<not> dict_has k glb) (map fst objs))
     @ concat (map (\<lambda>k. case map_of glb k of Some p \<Rightarrow> [Import_gltf p k] | None \<Rightarrow> [])
         (map fst objs))"
    by (rule batch_import_assets_trace)
next
  fix k p assume "k \<in> fst ` set objs" "map_of glb k = Some p"
  then show "Import_gltf p k \<in> set (batch_import_assets objs glb)"
    by (force simp: batch_import_assets_trace)
next
  fix k assume "k \<in> fst ` set objs" "\<not> dict_has k glb"
  then show "Print_line (''Warning: No GLB file found for '' @ k) \<in> set (batch_import_assets objs glb)"
    by (force simp: batch_import_assets_trace)
next
  fix k p assume "k \<in> fst ` set objs" "\<not> dict_has k glb"
  then show "Import_gltf p k \<notin> set (batch_import_assets objs glb)"
    by (auto simp: batch_import_assets_trace dict_has_def split: option.splits)
qed

theorem batch_import_assets_witness:
  "batch_import_assets (load_json example_data) (find_glb_files example_walk) =
     [Print_glb_file_paths [(''chair_1'', ''assets/chair_1.glb''), (''sofa'', ''assets/sofa.v2.glb'')],
      Import_gltf ''assets/chair_1.glb'' ''chair_1'',
      Import_gltf ''assets/sofa.v2.glb'' ''sofa'']
   \<and> batch_import_assets (load_json example_data) [(''sofa'', ''assets/sofa.v2.glb'')] =
     [Print_glb_file_paths [(''sofa'', ''assets/sofa.v2.glb'')],
      Print_line ''Warning: No GLB file found for chair_1'',
      Import_gltf ''assets/sofa.v2.glb'' ''sofa'']"
  using batch_import_assets_skips_missing [of "load_json example_data" "find_glb_files example_walk"]
    batch_import_assets_skips_missing [of "load_json example_data" "[(''sofa'', ''assets/sofa.v2.glb'')]"]
  by (simp add: example_data_def example_item_def load_json_def load_step_def structural_labels_def
      example_walk_def find_glb_files_def glb_dir_step_def glb_file_step_def endswith_def glb_key_def
      path_join_def startswith_def dict_has_def)

section \<open>The three passes over the meshes\<close>

lemma match_key_lookup:
  "match_key d n = Some key \<Longrightarrow> \<exists>item. map_of d key = Some item"
  using find_Some_mem [of "\<lambda>k. dict_has k d" "key_variants n" key]
  by (auto simp: match_key_def dict_has_def)

lemma matched_item_None: "matched_item d n = None \<longleftrightarrow> match_key d n = None"
  using match_key_lookup [of d n]
  by (auto simp: matched_item_def split: option.splits)

lemma map_of_transform_step:
  "map_of (transform_step d obj tm) n =
     (if n = name obj
      then (case matched_item d n of Some item \<Rightarrow> Some (transform_of item) | None \<Rightarrow> map_of tm n)
      else map_of tm n)"
  using match_key_lookup [of d "name obj"]
  by (auto simp: transform_step_def matched_item_def map_of_dict_set split: option.splits)

lemma map_of_fold_transform_step:
  "map_of (fold (transform_step d) objs tm) n =
     (if n \<in> name ` set objs
      then (case matched_item d n of Some item \<Rightarrow> Some (transform_of item) | None \<Rightarrow> map_of tm n)
      else map_of tm n)"
proof (induction objs arbitrary: tm)
  case Nil
  show ?case by simp
next
  case (Cons obj objs)
  show ?case
    by (simp add: Cons.IH map_of_transform_step split: option.splits)
qed

lemma map_of_build_transform_map:
  "obj \<in> set objs \<Longrightarrow>
   map_of (build_transform_map d objs) (name obj) = map_option transform_of (matched_item d (name obj))"
  by (simp add: build_transform_map_def map_of_fold_transform_step split: option.splits)

lemma apply_scales_Inr_D:
  "apply_scales tm xs = Inr ys \<Longrightarrow> list_all2 (\<lambda>x y. apply_scale tm x = Inr y) xs ys"
  by (induction xs arbitrary: ys) (auto split: sum.splits)

lemma apply_scales_Inr_I:
  "list_all2 (\<lambda>x y. apply_scale tm x = Inr y) xs ys \<Longrightarrow> apply_scales tm xs = Inr ys"
  by (induction xs ys rule: list_all2_induct) auto

lemma apply_scales_Inr:
  "apply_scales tm xs = Inr ys \<longleftrightarrow> list_all2 (\<lambda>x y. apply_scale tm x = Inr y) xs ys"
  using apply_scales_Inr_D apply_scales_Inr_I by blast

lemma apply_scales_Inl_D:
  "apply_scales tm xs = Inl e \<Longrightarrow> \<exists>x \<in> set xs. apply_scale tm x = Inl e"
  by (induction xs) (auto split: sum.splits)

lemma apply_scales_total:
  "(\<exists>ys. apply_scales tm xs = Inr ys) \<longleftrightarrow> (\<forall>x \<in> set xs. \<exists>y. apply_scale tm x = Inr y)"
proof
  assume "\<exists>ys. apply_scales tm xs = Inr ys"
  then obtain ys where "list_all2 (\<lambda>x y. apply_scale tm x = Inr y) xs ys"
    using apply_scales_Inr_D by blast
  then show "\<forall>x \<in> set xs. \<exists>y. apply_scale tm x = Inr y"
    by (induction rule: list_all2_induct) auto
next
  assume "\<forall>x \<in> set xs. \<exists>y. apply_scale tm x = Inr y"
  then show "\<exists>ys. apply_scales tm xs = Inr ys"
    by (induction xs) (auto split: sum.splits)
qed

lemma apply_scale_error: "apply_scale tm obj = Inl e \<Longrightarrow> e = ZeroDivisionError"
  by (auto simp: apply_scale_def py_truediv_def Let_def split: option.splits if_splits)

text \<open>The three passes on an object that has no entry in the transform map.\<close>

lemma placed_unmatched:
  "map_of tm (name obj) = None \<Longrightarrow>
   apply_scale tm (apply_rotation tm (apply_location tm obj)) = Inr obj"
  by (simp add: apply_scale_def apply_rotation_def apply_location_def)

text \<open>The three passes on a mesh that has one.\<close>

lemma placed_matched:
  "map_of tm (name obj) = Some t \<Longrightarrow> obj_type obj = MESH \<Longrightarrow>
   apply_scale tm (apply_rotation tm (apply_location tm obj)) =
     (if vec_x (dimensions obj) = 0 \<or> vec_y (dimensions obj) = 0 \<or> vec_z (dimensions obj) = 0
      then Inl ZeroDivisionError
      else Inr (obj\<lparr>location := tr_position t,
                    rotate_z_calls := rotate_z_calls obj @ [tr_rotation t],
                    obj_scale := (length_m (tr_size t) / vec_x (dimensions obj),
                                  width_m (tr_size t) / vec_y (dimensions obj),
                                  height_m (tr_size t) / vec_z (dimensions obj))\<rparr>))"
  by (simp add: apply_scale_def apply_rotation_def apply_location_def py_truediv_def Let_def)

lemma mesh_objects_type: "obj \<in> set (mesh_objects scene) \<Longrightarrow> obj_type obj = MESH"
  by (simp add: mesh_objects_def)

lemma batch_process_meshes_Inr:
  "batch_process_meshes d scene = Inr objs' \<longleftrightarrow>
   list_all2 (\<lambda>obj obj'.
       apply_scale (build_transform_map d (mesh_objects scene))
         (apply_rotation (build_transform_map d (mesh_objects scene))
           (apply_location (build_transform_map d (mesh_objects scene)) obj)) = Inr obj')
     (mesh_objects scene) objs'"
  by (simp add: batch_process_meshes_def Let_def apply_scales_Inr list_all2_map1)

lemma placed_mesh:
  assumes "obj \<in> set (mesh_objects scene)"
  shows "apply_scale (build_transform_map d (mesh_objects scene))
           (apply_rotation (build_transform_map d (mesh_objects scene))
             (apply_location (build_transform_map d (mesh_objects scene)) obj)) =
     (case matched_item d (name obj) of
        None \<Rightarrow> Inr obj
      | Some item \<Rightarrow>
          if vec_x (dimensions obj) = 0 \<or> vec_y (dimensions obj) = 0 \<or> vec_z (dimensions obj) = 0
          then Inl ZeroDivisionError
          else Inr (obj\<lparr>location := tr_position (transform_of item),
                        rotate_z_calls := rotate_z_calls obj @ [tr_rotation (transform_of item)],
                        obj_scale := (length_m (tr_size (transform_of item)) / vec_x (dimensions obj),
                                      width_m (tr_size (transform_of item)) / vec_y (dimensions obj),
                                      height_m (tr_size (transform_of item)) / vec_z (dimensions obj))\<rparr>))"
proof (cases "matched_item d (name obj)")
  case None
  then have "map_of (build_transform_map d (mesh_objects scene)) (name obj) = None"
    using assms by (simp add: map_of_build_transform_map)
  then show ?thesis
    by (simp add: placed_unmatched None)
next
  case (Some item)
  then have "map_of (build_transform_map d (mesh_objects scene)) (name obj) = Some (transform_of item)"
    using assms by (simp add: map_of_build_transform_map)
  then show ?thesis
    using mesh_objects_type [OF assms] by (simp add: placed_matched Some)
qed

lemma batch_process_meshes_nth:
  assumes "batch_process_meshes d scene = Inr objs'" and "i < length (mesh_objects scene)"
  shows "length objs' = length (mesh_objects scene)"
    and "apply_scale (build_transform_map d (mesh_objects scene))
           (apply_rotation (build_transform_map d (mesh_objects scene))
             (apply_location (build_transform_map d (mesh_objects scene)) (mesh_objects scene ! i)))
         = Inr (objs' ! i)"
  using assms by (auto simp: batch_process_meshes_Inr list_all2_conv_all_nth)

lemma batch_process_meshes_unmatched:
  assumes "batch_process_meshes d scene = Inr objs'" and "i < length (mesh_objects scene)"
    and "match_key d (name (mesh_objects scene ! i)) = None"
  shows "objs' ! i = mesh_objects scene ! i"
proof -
  have "mesh_objects scene ! i \<in> set (mesh_objects scene)"
    using assms(2) by simp
  from placed_mesh [OF this, of d] batch_process_meshes_nth(2) [OF assms(1,2)] assms(3)
  show ?thesis
    by (simp add: matched_item_def)
qed

lemma batch_process_meshes_matched:
  assumes "batch_process_meshes d scene = Inr objs'" and "i < length (mesh_objects scene)"
    and "match_key d (name (mesh_objects scene ! i)) = Some key" and "map_of d key = Some item"
  shows "objs' ! i = (mesh_objects scene ! i)
           \<lparr>location := tr_position (transform_of item),
            rotate_z_calls := rotate_z_calls (mesh_objects scene ! i) @ [tr_rotation (transform_of item)],
            obj_scale := (length_m (tr_size (transform_of item)) / vec_x (dimensions (mesh_objects scene ! i)),
                          width_m (tr_size (transform_of item)) / vec_y (dimensions (mesh_objects scene ! i)),
                          height_m (tr_size (transform_of item)) / vec_z (dimensions (mesh_objects scene ! i)))\<rparr>"
proof -
  have "mesh_objects scene ! i \<in> set (mesh_objects scene)"
    using assms(2) by simp
  from placed_mesh [OF this, of d] batch_process_meshes_nth(2) [OF assms(1,2)] assms(3,4)
  show ?thesis
    by (simp add: matched_item_def split: if_splits)
qed

section \<open>The example scene, placed\<close>

lemma tr_rotation_transform_of:
  "tr_rotation (transform_of item) = z_angle (rotation item) * pi / 180 + pi"
  by (simp add: transform_of_def)

lemma example_load_json:
  "load_json example_data = [(''chair_1'', example_item ''chair_1'' 90), (''sofa'', example_item ''sofa'' 0)]"
  by (simp add: example_data_def load_json_def load_step_def structural_labels_def example_item_def)

lemma example_mesh_objects:
  "mesh_objects example_scene =
     [example_object ''chair_1-joined'' 1, example_object ''lamp'' 1, example_object ''sofa.001'' 2]"
  by (simp add: mesh_objects_def example_scene_def example_object_def)

lemma example_match_key:
  "match_key (load_json example_data) ''chair_1-joined'' = Some ''chair_1''"
  "match_key (load_json example_data) ''lamp'' = None"
  "match_key (load_json example_data) ''sofa.001'' = Some ''sofa''"
  by (simp_all add: example_load_json match_key_def key_variants_def replace_def dict_has_def)

lemma example_transform_map:
  "build_transform_map (load_json example_data) (mesh_objects example_scene) =
     [(''chair_1-joined'', transform_of (example_item ''chair_1'' 90)),
      (''sofa.001'', transform_of (example_item ''sofa'' 0))]"
  by (simp add: build_transform_map_def example_mesh_objects transform_step_def example_match_key
      example_object_def)
    (simp add: example_load_json)

lemma example_batch:
  "batch_process_meshes (load_json example_data) example_scene = Inr example_placed"
  unfolding batch_process_meshes_def Let_def example_transform_map
  by (simp add: example_mesh_objects example_object_def example_placed_def apply_location_def
      apply_rotation_def apply_scale_def py_truediv_def transform_of_def example_item_def)

section \<open>Rotation, matching and scaling of the meshes\<close>

text \<open>
  C1, as the code has it. For every mesh whose name resolves to a scene-graph record, the
  rotate operator is called once for that mesh, about the Z axis, with the record's angle
  taken in degrees and turned by a further half turn: \<open>z_angle * pi / 180 + pi\<close> radians.
  The numbers are reals here; the script computes in floating point.
\<close>

theorem rotation_is_angle_plus_half_turn:
  assumes "batch_process_meshes d scene = Inr objs'" and "i < length (mesh_objects scene)"
    and "match_key d (name (mesh_objects scene ! i)) = Some key" and "map_of d key = Some item"
  shows "rotate_z_calls (objs' ! i) =
           rotate_z_calls (mesh_objects scene ! i) @ [z_angle (rotation item) * pi / 180 + pi]"
  by (simp add: batch_process_meshes_matched [OF assms] tr_rotation_transform_of)

theorem rotation_is_angle_plus_half_turn_witness:
  "batch_process_meshes (load_json example_data) example_scene = Inr example_placed
   \<and> 2 < length (mesh_objects example_scene)
   \<and> match_key (load_json example_data) (name (mesh_objects example_scene ! 2)) = Some ''sofa''
   \<and> map_of (load_json example_data) ''sofa'' = Some (example_item ''sofa'' 0)
   \<and> rotate_z_calls (example_placed ! 2) = [pi]"
proof -
  have a: "batch_process_meshes (load_json example_data) example_scene = Inr example_placed"
    by (rule example_batch)
  have b: "2 < length (mesh_objects example_scene)"
    by (simp add: example_mesh_objects)
  have c: "match_key (load_json example_data) (name (mesh_objects example_scene ! 2)) = Some ''sofa''"
    by (simp add: example_mesh_objects example_match_key example_object_def)
  have d: "map_of (load_json example_data) ''sofa'' = Some (example_item ''sofa'' 0)"
    by (simp add: example_load_json)
  from rotation_is_angle_plus_half_turn [OF a b c d]
  have "rotate_z_calls (example_placed ! 2) = [pi]"
    by (simp add: example_mesh_objects example_object_def example_item_def)
  with a b c d show ?thesis by blast
qed

text \<open>
  C1 as stated, without the offset, fails: the mesh \<^verbatim>\<open>chair_1-joined\<close> resolves to the
  record \<^verbatim>\<open>chair_1\<close> of angle 90, and the value the rotate operator gets is not
  \<open>90 * pi / 180\<close>.
\<close>

theorem rotation_without_offset_counterexample:
  "match_key (load_json example_data) (name (mesh_objects example_scene ! 0)) = Some ''chair_1''
   \<and> map_of (load_json example_data) ''chair_1'' = Some (example_item ''chair_1'' 90)
   \<and> batch_process_meshes (load_json example_data) example_scene = Inr example_placed
   \<and> rotate_z_calls (example_placed ! 0) \<noteq>
       rotate_z_calls (mesh_objects example_scene ! 0)
         @ [z_angle (rotation (example_item ''chair_1'' 90)) * pi / 180]"
proof (intro conjI)
  show "match_key (load_json example_data) (name (mesh_objects example_scene ! 0)) = Some ''chair_1''"
    by (simp add: example_mesh_objects example_match_key example_object_def)
  show "map_of (load_json example_data) ''chair_1'' = Some (example_item ''chair_1'' 90)"
    by (simp add: example_load_json)
  show "batch_process_meshes (load_json example_data) example_scene = Inr example_placed"
    by (rule example_batch)
  show "rotate_z_calls (example_placed ! 0) \<noteq>
       rotate_z_calls (mesh_objects example_scene ! 0)
         @ [z_angle (rotation (example_item ''chair_1'' 90)) * pi / 180]"
    by (simp add: example_mesh_objects example_object_def example_placed_def example_item_def)
qed

text \<open>
  C2. The record used for a mesh is found by trying its name, the name without
  \<^verbatim>\<open>-joined\<close>, the name without \<^verbatim>\<open>.001\<close> and the name without \<^verbatim>\<open>.002\<close>, in
  this order, and taking the first that is a key of the loaded scene graph. A mesh with no
  such variant leaves the three passes as it entered them: no position, rotation or scale.
  A mesh with one gets the position, the rotation and the scale of that key's record.
\<close>

theorem mesh_key_is_first_variant:
  assumes "batch_process_meshes d scene = Inr objs'" and "i < length (mesh_objects scene)"
  shows "length objs' = length (mesh_objects scene)
   \<and> match_key d (name (mesh_objects scene ! i)) =
       List.find (\<lambda>k. dict_has k d)
         [name (mesh_objects scene ! i),
          replace (name (mesh_objects scene ! i)) ''-joined'' [],
          replace (name (mesh_objects scene ! i)) ''.001'' [],
          replace (name (mesh_objects scene ! i)) ''.002'' []]
   \<and> (match_key d (name (mesh_objects scene ! i)) = None \<longrightarrow>
        objs' ! i = mesh_objects scene ! i)
   \<and> (\<forall>key. match_key d (name (mesh_objects scene ! i)) = Some key \<longrightarrow>
        (\<exists>item. map_of d key = Some item
          \<and> location (objs' ! i) = (pos_x (position item), pos_y (position item), pos_z (position item))
          \<and> rotate_z_calls (objs' ! i) =
              rotate_z_calls (mesh_objects scene ! i) @ [tr_rotation (transform_of item)]
          \<and> obj_scale (objs' ! i) =
              (length_m (size_in_meters item) / vec_x (dimensions (mesh_objects scene ! i)),
               width_m (size_in_meters item) / vec_y (dimensions (mesh_objects scene ! i)),
               height_m (size_in_meters item) / vec_z (dimensions (mesh_objects scene ! i)))))"
proof (intro conjI impI allI)
  show "length objs' = length (mesh_objects scene)"
    by (rule batch_process_meshes_nth(1) [OF assms])
  show "match_key d (name (mesh_objects scene ! i)) =
       List.find (\<lambda>k. dict_has k d)
         [name (mesh_objects scene ! i),
          replace (name (mesh_objects scene ! i)) ''-joined'' [],
          replace (name (mesh_objects scene ! i)) ''.001'' [],
          replace (name (mesh_objects scene ! i)) ''.002'' []]"
    by (simp add: match_key_def key_variants_def)
  show "objs' ! i = mesh_objects scene ! i" if "match_key d (name (mesh_objects scene ! i)) = None"
    by (rule batch_process_meshes_unmatched [OF assms that])
  show "\<exists>item. map_of d key = Some item
          \<and> location (objs' ! i) = (pos_x (position item), pos_y (position item), pos_z (position item))
          \<and> rotate_z_calls (objs' ! i) =
              rotate_z_calls (mesh_objects scene ! i) @ [tr_rotation (transform_of item)]
          \<and> obj_scale (objs' ! i) =
              (length_m (size_in_meters item) / vec_x (dimensions (mesh_objects scene ! i)),
               width_m (size_in_meters item) / vec_y (dimensions (mesh_objects scene ! i)),
               height_m (size_in_meters item) / vec_z (dimensions (mesh_objects scene ! i)))"
    if key: "match_key d (name (mesh_objects scene ! i)) = Some key" for key
  proof -
    obtain item where item: "map_of d key = Some item"
      using match_key_lookup [OF key] by blast
    show ?thesis
      by (rule exI [of _ item])
        (simp add: item batch_process_meshes_matched [OF assms key item] transform_of_def)
  qed
qed

theorem mesh_key_is_first_variant_witness:
  "batch_process_meshes (load_json example_data) example_scene = Inr example_placed
   \<and> match_key (load_json example_data) ''chair_1-joined'' = Some ''chair_1''
   \<and> match_key (load_json example_data) ''lamp'' = None
   \<and> example_placed ! 1 = mesh_objects example_scene ! 1
   \<and> location (example_placed ! 0) = (1, 2, 0)"
proof -
  have a: "batch_process_meshes (load_json example_data) example_scene = Inr example_placed"
    by (rule example_batch)
  have b: "1 < length (mesh_objects example_scene)"
    by (simp add: example_mesh_objects)
  have c: "match_key (load_json example_data) (name (mesh_objects example_scene ! 1)) = None"
    by (simp add: example_mesh_objects example_match_key example_object_def)
  from mesh_key_is_first_variant [OF a b] c
  have "example_placed ! 1 = mesh_objects example_scene ! 1"
    by blast
  moreover have "location (example_placed ! 0) = (1, 2, 0)"
    by (simp add: example_placed_def example_object_def)
  ultimately show ?thesis
    using a by (simp add: example_match_key)
qed

lemma placed_mesh_total:
  assumes "obj \<in> set (mesh_objects scene)"
  shows "(\<exists>obj'. apply_scale (build_transform_map d (mesh_objects scene))
           (apply_rotation (build_transform_map d (mesh_objects scene))
             (apply_location (build_transform_map d (mesh_objects scene)) obj)) = Inr obj')
     \<longleftrightarrow> (match_key d (name obj) \<noteq> None \<longrightarrow>
           vec_x (dimensions obj) \<noteq> 0 \<and> vec_y (dimensions obj) \<noteq> 0 \<and> vec_z (dimensions obj) \<noteq> 0)"
  unfolding placed_mesh [OF assms] matched_item_None [symmetric]
  by (cases "matched_item d (name obj)") auto

lemma batch_process_meshes_error:
  "batch_process_meshes d scene = Inl e \<Longrightarrow> e = ZeroDivisionError"
  by (auto simp: batch_process_meshes_def Let_def dest!: apply_scales_Inl_D apply_scale_error)

text \<open>
  C9. The scale pass divides the record's length, width and height by the three dimensions
  of the mesh's bounding box, unguarded. The three passes return exactly when every mesh
  that resolves to a scene-graph record has all three dimensions different from zero; one
  such mesh with a zero dimension makes them raise \<^verbatim>\<open>ZeroDivisionError\<close>. The same holds
  of \<^verbatim>\<open>rescale_object\<close> on a mesh.
\<close>

theorem scale_total_iff_nonzero_dimensions:
  "((\<exists>objs'. batch_process_meshes d scene = Inr objs') \<longleftrightarrow>
      (\<forall>obj \<in> set (mesh_objects scene). match_key d (name obj) \<noteq> None \<longrightarrow>
         vec_x (dimensions obj) \<noteq> 0 \<and> vec_y (dimensions obj) \<noteq> 0 \<and> vec_z (dimensions obj) \<noteq> 0))
   \<and> ((\<exists>obj \<in> set (mesh_objects scene). match_key d (name obj) \<noteq> None \<and>
         (vec_x (dimensions obj) = 0 \<or> vec_y (dimensions obj) = 0 \<or> vec_z (dimensions obj) = 0))
       \<longrightarrow> batch_process_meshes d scene = Inl ZeroDivisionError)
   \<and> (obj_type obj = MESH \<longrightarrow>
        ((\<exists>obj'. rescale_object obj scale = Inr obj') \<longleftrightarrow>
           vec_x (dimensions obj) \<noteq> 0 \<and> vec_y (dimensions obj) \<noteq> 0 \<and> vec_z (dimensions obj) \<noteq> 0))"
proof -
  have total: "(\<exists>objs'. batch_process_meshes d scene = Inr objs') \<longleftrightarrow>
      (\<forall>obj \<in> set (mesh_objects scene). match_key d (name obj) \<noteq> None \<longrightarrow>
         vec_x (dimensions obj) \<noteq> 0 \<and> vec_y (dimensions obj) \<noteq> 0 \<and> vec_z (dimensions obj) \<noteq> 0)"
  proof -
    have "(\<exists>objs'. batch_process_meshes d scene = Inr objs') \<longleftrightarrow>
        (\<forall>obj \<in> set (mesh_objects scene).
           \<exists>obj'. apply_scale (build_transform_map d (mesh_objects scene))
             (apply_rotation (build_transform_map d (mesh_objects scene))
               (apply_location (build_transform_map d (mesh_objects scene)) obj)) = Inr obj')"
      by (simp add: batch_process_meshes_def Let_def apply_scales_total)
    also have "\<dots> \<longleftrightarrow> (\<forall>obj \<in> set (mesh_objects scene). match_key d (name obj) \<noteq> None \<longrightarrow>
         vec_x (dimensions obj) \<noteq> 0 \<and> vec_y (dimensions obj) \<noteq> 0 \<and> vec_z (dimensions obj) \<noteq> 0)"
      using placed_mesh_total [of _ scene d] by blast
    finally show ?thesis .
  qed
  have raises: "batch_process_meshes d scene = Inl ZeroDivisionError"
    if "\<exists>obj \<in> set (mesh_objects scene). match_key d (name obj) \<noteq> None \<and>
         (vec_x (dimensions obj) = 0 \<or> vec_y (dimensions obj) = 0 \<or> vec_z (dimensions obj) = 0)"
  proof (cases "batch_process_meshes d scene")
    case (Inl e)
    then show ?thesis
      using batch_process_meshes_error by blast
  next
    case (Inr objs')
    then have "\<exists>objs'. batch_process_meshes d scene = Inr objs'"
      by blast
    with total that show ?thesis
      by blast
  qed
  have rescale: "(\<exists>obj'. rescale_object obj scale = Inr obj') \<longleftrightarrow>
           vec_x (dimensions obj) \<noteq> 0 \<and> vec_y (dimensions obj) \<noteq> 0 \<and> vec_z (dimensions obj) \<noteq> 0"
    if "obj_type obj = MESH"
    using that by (simp add: rescale_object_def py_truediv_def Let_def)
  from total raises rescale show ?thesis
    by blast
qed

theorem scale_total_witness:
  "(\<exists>objs'. batch_process_meshes (load_json example_data) example_scene = Inr objs')
   \<and> match_key (load_json example_data) (name (example_object ''sofa'' 0)) = Some ''sofa''
   \<and> vec_y (dimensions (example_object ''sofa'' 0)) = 0
   \<and> batch_process_meshes (load_json example_data) [example_object ''sofa'' 0] = Inl ZeroDivisionError"
proof -
  have nonzero: "\<forall>obj \<in> set (mesh_objects example_scene).
      match_key (load_json example_data) (name obj) \<noteq> None \<longrightarrow>
      vec_x (dimensions obj) \<noteq> 0 \<and> vec_y (dimensions obj) \<noteq> 0 \<and> vec_z (dimensions obj) \<noteq> 0"
    by (simp add: example_mesh_objects example_object_def)
  have key: "match_key (load_json example_data) (name (example_object ''sofa'' 0)) = Some ''sofa''"
    by (simp add: example_load_json example_object_def match_key_def key_variants_def dict_has_def)
  have zero: "vec_y (dimensions (example_object ''sofa'' 0)) = 0"
    by (simp add: example_object_def)
  have mesh: "mesh_objects [example_object ''sofa'' 0] = [example_object ''sofa'' 0]"
    by (simp add: mesh_objects_def example_object_def)
  have "\<exists>obj \<in> set (mesh_objects [example_object ''sofa'' 0]).
      match_key (load_json example_data) (name obj) \<noteq> None \<and>
      (vec_x (dimensions obj) = 0 \<or> vec_y (dimensions obj) = 0 \<or> vec_z (dimensions obj) = 0)"
    using key zero by (simp add: mesh)
  with scale_total_iff_nonzero_dimensions [of "load_json example_data" "[example_object ''sofa'' 0]"]
  have "batch_process_meshes (load_json example_data) [example_object ''sofa'' 0] = Inl ZeroDivisionError"
    by blast
  moreover from scale_total_iff_nonzero_dimensions [of "load_json example_data" example_scene] nonzero
  have "\<exists>objs'. batch_process_meshes (load_json example_data) example_scene = Inr objs'"
    by blast
  ultimately show ?thesis
    using key zero by blast
qed

section \<open>The outer script's run\<close>

lemma path_join_inject:
  assumes "\<not> startswith b ''/''" and "\<not> startswith c ''/''" and "path_join a b = path_join a c"
  shows "b = c"
  using assms by (auto simp: path_join_def split: if_splits)

text \<open>
  C5. When the room folder does not exist, or it exists and
  \<^verbatim>\<open>scene_graph-backtracked.json\<close> in it does not, \<^verbatim>\<open>run_local_metaverse\<close> prints the one
  error message and returns: its only effect is that line, so no subprocess is run and no
  file is written.
\<close>

theorem missing_inputs_return_early:
  "(\<not> path_exists env (path_join (ROOMS_FOLDER PROJECT_ROOT) room_name) \<longrightarrow>
      run_local_metaverse env PROJECT_ROOT room_name step_number ground_truth fast_mode skip_save =
        ([Print (''Error: Room folder '' @ path_join (ROOMS_FOLDER PROJECT_ROOT) room_name
                   @ '' does not exist'')], Inr PyNone))
   \<and> (path_exists env (path_join (ROOMS_FOLDER PROJECT_ROOT) room_name) \<and>
       \<not> path_exists env (path_join (path_join (ROOMS_FOLDER PROJECT_ROOT) room_name)
                             ''scene_graph-backtracked.json'') \<longrightarrow>
      run_local_metaverse env PROJECT_ROOT room_name step_number ground_truth fast_mode skip_save =
        ([Print (''Error: Backtracked JSON file ''
                   @ path_join (path_join (ROOMS_FOLDER PROJECT_ROOT) room_name)
                       ''scene_graph-backtracked.json''
                   @ '' does not exist'')], Inr PyNone))
   \<and> (\<not> path_exists env (path_join (ROOMS_FOLDER PROJECT_ROOT) room_name) \<or>
       \<not> path_exists env (path_join (path_join (ROOMS_FOLDER PROJECT_ROOT) room_name)
                             ''scene_graph-backtracked.json'') \<longrightarrow>
      (\<forall>cmd. Subprocess_run cmd \<notin>
         set (fst (run_local_metaverse env PROJECT_ROOT room_name step_number ground_truth
                     fast_mode skip_save))))"
  by (auto simp: run_local_metaverse_def try_body_def Let_def)

theorem missing_inputs_witness:
  "\<not> path_exists (example_env False False (Raised ''none'')) ''/proj/3d_utlis/data/room_97''
   \<and> run_local_metaverse (example_env False False (Raised ''none'')) ''/proj'' ''room_97'' 1 ''false''
         False False
       = ([Print ''Error: Room folder /proj/3d_utlis/data/room_97 does not exist''], Inr PyNone)
   \<and> path_exists (example_env True False (Raised ''none'')) ''/proj/3d_utlis/data/room_97''
   \<and> run_local_metaverse (example_env True False (Raised ''none'')) ''/proj'' ''room_97'' 1 ''false''
         False False
       = ([Print (''Error: Backtracked JSON file ''
                   @ ''/proj/3d_utlis/data/room_97/scene_graph-backtracked.json does not exist'')],
          Inr PyNone)"
  using missing_inputs_return_early [of "example_env False False (Raised ''none'')" "''/proj''"
      "''room_97''" 1 "''false''" False False]
    missing_inputs_return_early [of "example_env True False (Raised ''none'')" "''/proj''"
      "''room_97''" 1 "''false''" False False]
  by (simp add: example_env_def ROOMS_FOLDER_def path_join_def startswith_def endswith_def)

text \<open>
  C6. \<^verbatim>\<open>run_local_metaverse\<close> returns \<^verbatim>\<open>None\<close> on every path and lets no exception of the
  \<^verbatim>\<open>try\<close> block out, so the outer process ends with status 0 whatever happened. When the
  subprocess ends with a return code other than zero, the last thing printed is the error
  line with its stderr.
\<close>

theorem run_local_metaverse_returns_None:
  "snd (run_local_metaverse env PROJECT_ROOT room_name step_number ground_truth fast_mode skip_save)
     = Inr PyNone
   \<and> main_exit_status env PROJECT_ROOT room_name step_number ground_truth fast_mode skip_save = 0
   \<and> (path_exists env (path_join (ROOMS_FOLDER PROJECT_ROOT) room_name)
       \<and> path_exists env (path_join (path_join (ROOMS_FOLDER PROJECT_ROOT) room_name)
                             ''scene_graph-backtracked.json'')
       \<and> subprocess_run env (blender_cmd_of (PLACE_IN_BLENDER_SCRIPT PROJECT_ROOT) room_name
                                step_number ground_truth fast_mode skip_save)
           = CompletedProcess returncode out err
       \<and> returncode \<noteq> 0 \<longrightarrow>
      fst (run_local_metaverse env PROJECT_ROOT room_name step_number ground_truth fast_mode skip_save)
        = [Print (''Processing room: '' @ room_name),
           Print (''Using scene graph: ''
                    @ path_join (path_join (ROOMS_FOLDER PROJECT_ROOT) room_name)
                        ''scene_graph-backtracked.json''),
           Print (''Running: '' @ blender_cmd_of (PLACE_IN_BLENDER_SCRIPT PROJECT_ROOT) room_name
                                    step_number ground_truth fast_mode skip_save),
           Subprocess_run (blender_cmd_of (PLACE_IN_BLENDER_SCRIPT PROJECT_ROOT) room_name
                             step_number ground_truth fast_mode skip_save),
           Print ''BLENDER TIME DELAY OUTPUT'',
           Print out,
           Print (''Error running place_in_blender.py: '' @ err)])"
proof (intro conjI impI)
  show ret: "snd (run_local_metaverse env PROJECT_ROOT room_name step_number ground_truth fast_mode skip_save)
     = Inr PyNone"
    by (simp add: run_local_metaverse_def try_body_def Let_def split: run_result.splits)
  then show "main_exit_status env PROJECT_ROOT room_name step_number ground_truth fast_mode skip_save = 0"
    by (simp add: main_exit_status_def)
next
  assume "path_exists env (path_join (ROOMS_FOLDER PROJECT_ROOT) room_name)
       \<and> path_exists env (path_join (path_join (ROOMS_FOLDER PROJECT_ROOT) room_name)
                             ''scene_graph-backtracked.json'')
       \<and> subprocess_run env (blender_cmd_of (PLACE_IN_BLENDER_SCRIPT PROJECT_ROOT) room_name
                                step_number ground_truth fast_mode skip_save)
           = CompletedProcess returncode out err
       \<and> returncode \<noteq> 0"
  then show "fst (run_local_metaverse env PROJECT_ROOT room_name step_number ground_truth fast_mode skip_save)
        = [Print (''Processing room: '' @ room_name),
           Print (''Using scene graph: ''
                    @ path_join (path_join (ROOMS_FOLDER PROJECT_ROOT) room_name)
                        ''scene_graph-backtracked.json''),
           Print (''Running: '' @ blender_cmd_of (PLACE_IN_BLENDER_SCRIPT PROJECT_ROOT) room_name
                                    step_number ground_truth fast_mode skip_save),
           Subprocess_run (blender_cmd_of (PLACE_IN_BLENDER_SCRIPT PROJECT_ROOT) room_name
                             step_number ground_truth fast_mode skip_save),
           Print ''BLENDER TIME DELAY OUTPUT'',
           Print out,
           Print (''Error running place_in_blender.py: '' @ err)]"
    by (simp add: run_local_metaverse_def try_body_def Let_def)
qed

theorem run_local_metaverse_returns_None_witness:
  "subprocess_run (example_env True True (CompletedProcess 1 ''out'' ''boom''))
       ''python /proj/3d_utlis/place_in_blender.py --room_name room_97 --step_number 1 --ground_truth false''
     = CompletedProcess 1 ''out'' ''boom''
   \<and> run_local_metaverse (example_env True True (CompletedProcess 1 ''out'' ''boom'')) ''/proj''
         ''room_97'' 1 ''false'' False False
       = ([Print ''Processing room: room_97'',
           Print ''Using scene graph: /proj/3d_utlis/data/room_97/scene_graph-backtracked.json'',
           Print (''Running: python /proj/3d_utlis/place_in_blender.py --room_name room_97''
                    @ '' --step_number 1 --ground_truth false''),
           Subprocess_run (''python /proj/3d_utlis/place_in_blender.py --room_name room_97''
                    @ '' --step_number 1 --ground_truth false''),
           Print ''BLENDER TIME DELAY OUTPUT'',
           Print ''out'',
           Print ''Error running place_in_blender.py: boom''],
          Inr PyNone)
   \<and> main_exit_status (example_env True True (CompletedProcess 1 ''out'' ''boom'')) ''/proj''
         ''room_97'' 1 ''false'' False False = 0"
  using run_local_metaverse_returns_None [of "example_env True True (CompletedProcess 1 ''out'' ''boom'')"
      "''/proj''" "''room_97''" 1 "''false''" False False 1 "''out''" "''boom''"]
  by (simp add: example_env_def ROOMS_FOLDER_def PLACE_IN_BLENDER_SCRIPT_def path_join_def
      startswith_def endswith_def blender_cmd_of_def str_int_def str_nat.simps prod_eq_iff)

section \<open>The flags of the two scripts\<close>

lemma strtobool_true_false: "strtobool ''true'' = Inr True" "strtobool ''false'' = Inr False"
  by (simp_all add: strtobool_def lower_chr_def)

lemma option_string_actions_mem:
  "(s, a) \<in> set (option_string_actions parser) \<longleftrightarrow> a \<in> set parser \<and> s \<in> set (option_strings a)"
  by (auto simp: option_string_actions_def)

lemma get_option_tuples_mem:
  "(a, s, sp, e) \<in> set (get_option_tuples parser tok) \<Longrightarrow> (s, a) \<in> set (option_string_actions parser)"
  by (auto simp: get_option_tuples_def Let_def split: if_splits)

lemma parse_optional_declared:
  assumes "parse_optional parser tok = Optional (Some a) s sep e"
  shows "a \<in> set parser \<and> s \<in> set (option_strings a)"
proof -
  have "(s, a) \<in> set (option_string_actions parser)"
  proof (cases "map_of (option_string_actions parser) tok")
    case (Some a')
    with assms have "a' = a" "s = tok"
      by (auto simp: parse_optional_def split: if_splits)
    with Some show ?thesis
      by (auto dest: map_of_SomeD)
  next
    case None
    note exact = None
    show ?thesis
    proof (cases "if CHR ''='' \<in> set tok
        then map_of (option_string_actions parser) (takeWhile (\<lambda>c. c \<noteq> CHR ''='') tok) else None")
      case (Some a')
      with assms exact have "a' = a" "s = takeWhile (\<lambda>c. c \<noteq> CHR ''='') tok"
        by (auto simp: parse_optional_def Let_def split: if_splits)
      with Some show ?thesis
        by (auto dest: map_of_SomeD split: if_splits)
    next
      case None
      with assms exact have "get_option_tuples parser tok = [(a, s, sep, e)]"
        by (auto simp: parse_optional_def Let_def split: if_splits list.splits)
      then have "(a, s, sep, e) \<in> set (get_option_tuples parser tok)"
        by simp
      then show ?thesis
        by (rule get_option_tuples_mem)
    qed
  qed
  then show ?thesis
    by (simp add: option_string_actions_mem)
qed

lemma finish_keys:
  "finish parser seen extras = Namespace ns \<Longrightarrow>
   map fst ns = map dest (filter (\<lambda>a. arg_action a \<noteq> Help) parser)"
  by (auto simp: finish_def Let_def comp_def split: if_splits)

lemma take_actions_no_Namespace:
  "take_actions py_int tuples seen \<noteq> Inl (Namespace ns)"
proof (induction tuples arbitrary: seen)
  case Nil
  show ?case by simp
next
  case (Cons tuple tuples)
  obtain action args where "tuple = (action, args)"
    by (cases tuple) auto
  then show ?case
    using Cons.IH by (auto split: arg_action.splits list.splits sum.splits)
qed

lemma consume_keys:
  "consume py_int parser ps seen extras = Namespace ns \<Longrightarrow>
   map fst ns = map dest (filter (\<lambda>a. arg_action a \<noteq> Help) parser)"
proof (induction py_int parser ps seen extras rule: consume.induct)
  case (1 py_int parser seen extras)
  then show ?case by (simp add: finish_keys)
next
  case (2 py_int parser arg_string rest seen extras)
  then show ?case by simp
next
  case (3 py_int parser arg_string rest seen extras)
  then show ?case by simp
next
  case (4 py_int parser arg_string s sep e rest seen extras)
  then show ?case by simp
next
  case (5 py_int parser arg_string action s sep rest seen extras)
  then show ?case
    by (auto simp: take_actions_no_Namespace simp del: take_actions.simps
        split: if_splits sum.splits list.splits pattern.splits prod.splits)
next
  case (6 py_int parser arg_string action s sep explicit_arg rest seen extras)
  then show ?case
    by (auto simp: take_actions_no_Namespace simp del: take_actions.simps
        split: if_splits sum.splits list.splits pattern.splits prod.splits explicit_result.splits)
qed

lemma parse_args_keys:
  "parse_args py_int parser argv = Namespace ns \<Longrightarrow>
   map fst ns = map dest (filter (\<lambda>a. arg_action a \<noteq> Help) parser)"
  by (auto simp: parse_args_def consume_keys split: sum.splits)

lemma outer_dests:
  "map dest (filter (\<lambda>a. arg_action a \<noteq> Help) outer_parser)
     = [''room_name'', ''step_number'', ''ground_truth'', ''fast_mode'', ''skip_save'']"
  by code_simp

lemma inner_dests:
  "map dest (filter (\<lambda>a. arg_action a \<noteq> Help) inner_parser)
     = [''room_name'', ''step_number'', ''ground_truth'', ''fast_mode'', ''skip_save'']"
  by code_simp

lemma outer_arguments_table:
  "map (\<lambda>a. (dest a, arg_action a)) outer_arguments
     = [(''room_name'', Store Type_str), (''step_number'', Store Type_int),
        (''ground_truth'', Store Type_str), (''fast_mode'', Store_true), (''skip_save'', Store_true)]"
  by code_simp

lemma inner_arguments_table:
  "map (\<lambda>a. (dest a, arg_action a)) inner_arguments
     = [(''room_name'', Store Type_str), (''step_number'', Store Type_int),
        (''ground_truth'', Store Type_strtobool), (''fast_mode'', Store Type_strtobool),
        (''skip_save'', Store Type_strtobool)]"
  by code_simp

lemma outer_action:
  assumes "a \<in> set outer_arguments"
  shows "(dest a = ''ground_truth'' \<longrightarrow> arg_action a = Store Type_str)
       \<and> (dest a \<in> {''fast_mode'', ''skip_save''} \<longrightarrow> arg_action a = Store_true)"
proof -
  have "(dest a, arg_action a) \<in> set (map (\<lambda>a. (dest a, arg_action a)) outer_arguments)"
    using assms by (simp add: image_iff) blast
  then show ?thesis
    unfolding outer_arguments_table by auto
qed

lemma inner_action:
  assumes "a \<in> set inner_arguments" and "dest a \<in> {''ground_truth'', ''fast_mode'', ''skip_save''}"
  shows "arg_action a = Store Type_strtobool"
proof -
  have "(dest a, arg_action a) \<in> set (map (\<lambda>a. (dest a, arg_action a)) inner_arguments)"
    using assms(1) by (simp add: image_iff) blast
  then show ?thesis
    unfolding inner_arguments_table using assms(2) by auto
qed

lemma outer_long_option:
  assumes "a \<in> set outer_arguments" and "s \<in> set (option_strings a)"
  shows "s ! 1 = CHR ''-''"
  using assms by (auto simp: outer_arguments_def)




section \<open>The render the outer script looks for\<close>

lemma render_paths_differ:
  "path_join room_path ''render_output_groundtruth1.png''
     \<noteq> path_join room_path (''render_output_step_'' @ str_int n @ ''.png'')"
proof
  assume eq: "path_join room_path ''render_output_groundtruth1.png''
     = path_join room_path (''render_output_step_'' @ str_int n @ ''.png'')"
  have "\<not> startswith ''render_output_groundtruth1.png'' ''/''"
    by (simp add: startswith_def)
  moreover have "\<not> startswith (''render_output_step_'' @ str_int n @ ''.png'') ''/''"
    by (simp add: startswith_def)
  ultimately have "''render_output_groundtruth1.png'' = ''render_output_step_'' @ str_int n @ ''.png''"
    using eq by (rule path_join_inject)
  then show False by simp
qed

lemma run_local_metaverse_success:
  assumes "path_exists env (path_join (ROOMS_FOLDER PROJECT_ROOT) room_name)"
    and "path_exists env (path_join (path_join (ROOMS_FOLDER PROJECT_ROOT) room_name)
                             ''scene_graph-backtracked.json'')"
    and "subprocess_run env (blender_cmd_of (PLACE_IN_BLENDER_SCRIPT PROJECT_ROOT) room_name
                                step_number ground_truth fast_mode skip_save)
           = CompletedProcess 0 out err"
  shows "run_local_metaverse env PROJECT_ROOT room_name step_number ground_truth fast_mode skip_save
     = ([Print (''Processing room: '' @ room_name),
         Print (''Using scene graph: ''
                  @ path_join (path_join (ROOMS_FOLDER PROJECT_ROOT) room_name)
                      ''scene_graph-backtracked.json''),
         Print (''Running: '' @ blender_cmd_of (PLACE_IN_BLENDER_SCRIPT PROJECT_ROOT) room_name
                                  step_number ground_truth fast_mode skip_save),
         Subprocess_run (blender_cmd_of (PLACE_IN_BLENDER_SCRIPT PROJECT_ROOT) room_name
                           step_number ground_truth fast_mode skip_save),
         Print ''BLENDER TIME DELAY OUTPUT'',
         Print out,
         Print ''Blender processing completed successfully'',
         (if path_exists_after env
               (path_join (path_join (ROOMS_FOLDER PROJECT_ROOT) room_name)
                  (''render_output_step_'' @ str_int step_number @ ''.png''))
          then Print (''Render output generated: ''
                        @ path_join (path_join (ROOMS_FOLDER PROJECT_ROOT) room_name)
                            (''render_output_step_'' @ str_int step_number @ ''.png''))
          else Print (''Warning: Expected render output not found at ''
                        @ path_join (path_join (ROOMS_FOLDER PROJECT_ROOT) room_name)
                            (''render_output_step_'' @ str_int step_number @ ''.png''))),
         Print_total_time],
        Inr PyNone)"
  using assms by (simp add: run_local_metaverse_def try_body_def Let_def render_output_of_def)

text \<open>
  C10. With \<^verbatim>\<open>ground_truth\<close> true the inner script renders to
  \<^verbatim>\<open>render_output_groundtruth1.png\<close> in the room's folder. After a run that went well the
  outer script asks, whatever \<^verbatim>\<open>ground_truth\<close> is, whether
  \<^verbatim>\<open>render_output_step_N.png\<close> exists in that folder, and prints accordingly. The two
  paths differ for all step numbers, and whether the inner script's ground-truth render
  exists changes nothing of what the outer script does.
\<close>

theorem ground_truth_render_is_not_checked:
  assumes "path_exists env (path_join (ROOMS_FOLDER PROJECT_ROOT) room_name)"
    and "path_exists env (path_join (path_join (ROOMS_FOLDER PROJECT_ROOT) room_name)
                             ''scene_graph-backtracked.json'')"
    and "subprocess_run env (blender_cmd_of (PLACE_IN_BLENDER_SCRIPT PROJECT_ROOT) room_name
                                step_number ground_truth fast_mode skip_save)
           = CompletedProcess 0 out err"
  shows "render_filepath (inner_room_path (path_join PROJECT_ROOT ''3d_utlis'') room_name) True n
       = path_join (path_join (ROOMS_FOLDER PROJECT_ROOT) room_name) ''render_output_groundtruth1.png''
   \<and> fst (run_local_metaverse env PROJECT_ROOT room_name step_number ground_truth fast_mode skip_save)
       = [Print (''Processing room: '' @ room_name),
          Print (''Using scene graph: ''
                   @ path_join (path_join (ROOMS_FOLDER PROJECT_ROOT) room_name)
                       ''scene_graph-backtracked.json''),
          Print (''Running: '' @ blender_cmd_of (PLACE_IN_BLENDER_SCRIPT PROJECT_ROOT) room_name
                                   step_number ground_truth fast_mode skip_save),
          Subprocess_run (blender_cmd_of (PLACE_IN_BLENDER_SCRIPT PROJECT_ROOT) room_name
                            step_number ground_truth fast_mode skip_save),
          Print ''BLENDER TIME DELAY OUTPUT'',
          Print out,
          Print ''Blender processing completed successfully'',
          (if path_exists_after env
                (path_join (path_join (ROOMS_FOLDER PROJECT_ROOT) room_name)
                   (''render_output_step_'' @ str_int step_number @ ''.png''))
           then Print (''Render output generated: ''
                         @ path_join (path_join (ROOMS_FOLDER PROJECT_ROOT) room_name)
                             (''render_output_step_'' @ str_int step_number @ ''.png''))
           else Print (''Warning: Expected render output not found at ''
                         @ path_join (path_join (ROOMS_FOLDER PROJECT_ROOT) room_name)
                             (''render_output_step_'' @ str_int step_number @ ''.png''))),
          Print_total_time]
   \<and> render_filepath (inner_room_path (path_join PROJECT_ROOT ''3d_utlis'') room_name) True n
       \<noteq> path_join (path_join (ROOMS_FOLDER PROJECT_ROOT) room_name)
            (''render_output_step_'' @ str_int step_number @ ''.png'')
   \<and> run_local_metaverse
         (env\<lparr>path_exists_after :=
                (path_exists_after env)
                  (render_filepath (inner_room_path (path_join PROJECT_ROOT ''3d_utlis'') room_name)
                     True n := written)\<rparr>)
         PROJECT_ROOT room_name step_number ground_truth fast_mode skip_save
       = run_local_metaverse env PROJECT_ROOT room_name step_number ground_truth fast_mode skip_save"
proof (intro conjI)
  show inner: "render_filepath (inner_room_path (path_join PROJECT_ROOT ''3d_utlis'') room_name) True n
       = path_join (path_join (ROOMS_FOLDER PROJECT_ROOT) room_name) ''render_output_groundtruth1.png''"
    by (simp add: render_filepath_def inner_room_path_def ROOMS_FOLDER_def)
  show "fst (run_local_metaverse env PROJECT_ROOT room_name step_number ground_truth fast_mode skip_save)
       = [Print (''Processing room: '' @ room_name),
          Print (''Using scene graph: ''
                   @ path_join (path_join (ROOMS_FOLDER PROJECT_ROOT) room_name)
                       ''scene_graph-backtracked.json''),
          Print (''Running: '' @ blender_cmd_of (PLACE_IN_BLENDER_SCRIPT PROJECT_ROOT) room_name
                                   step_number ground_truth fast_mode skip_save),
          Subprocess_run (blender_cmd_of (PLACE_IN_BLENDER_SCRIPT PROJECT_ROOT) room_name
                            step_number ground_truth fast_mode skip_save),
          Print ''BLENDER TIME DELAY OUTPUT'',
          Print out,
          Print ''Blender processing completed successfully'',
          (if path_exists_after env
                (path_join (path_join (ROOMS_FOLDER PROJECT_ROOT) room_name)
                   (''render_output_step_'' @ str_int step_number @ ''.png''))
           then Print (''Render output generated: ''
                         @ path_join (path_join (ROOMS_FOLDER PROJECT_ROOT) room_name)
                             (''render_output_step_'' @ str_int step_number @ ''.png''))
           else Print (''Warning: Expected render output not found at ''
                         @ path_join (path_join (ROOMS_FOLDER PROJECT_ROOT) room_name)
                             (''render_output_step_'' @ str_int step_number @ ''.png''))),
          Print_total_time]"
    by (simp add: run_local_metaverse_success [OF assms])
  show differ: "render_filepath (inner_room_path (path_join PROJECT_ROOT ''3d_utlis'') room_name) True n
       \<noteq> path_join (path_join (ROOMS_FOLDER PROJECT_ROOT) room_name)
            (''render_output_step_'' @ str_int step_number @ ''.png'')"
    unfolding inner by (rule render_paths_differ)
  let ?env' = "env\<lparr>path_exists_after :=
                (path_exists_after env)
                  (render_filepath (inner_room_path (path_join PROJECT_ROOT ''3d_utlis'') room_name)
                     True n := written)\<rparr>"
  have a: "path_exists ?env' (path_join (ROOMS_FOLDER PROJECT_ROOT) room_name)"
    using assms(1) by simp
  have b: "path_exists ?env' (path_join (path_join (ROOMS_FOLDER PROJECT_ROOT) room_name)
                             ''scene_graph-backtracked.json'')"
    using assms(2) by simp
  have c: "subprocess_run ?env' (blender_cmd_of (PLACE_IN_BLENDER_SCRIPT PROJECT_ROOT) room_name
                                step_number ground_truth fast_mode skip_save)
           = CompletedProcess 0 out err"
    using assms(3) by simp
  have same: "path_exists_after ?env'
        (path_join (path_join (ROOMS_FOLDER PROJECT_ROOT) room_name)
           (''render_output_step_'' @ str_int step_number @ ''.png''))
      = path_exists_after env
        (path_join (path_join (ROOMS_FOLDER PROJECT_ROOT) room_name)
           (''render_output_step_'' @ str_int step_number @ ''.png''))"
    using differ by simp
  show "run_local_metaverse ?env' PROJECT_ROOT room_name step_number ground_truth fast_mode skip_save
       = run_local_metaverse env PROJECT_ROOT room_name step_number ground_truth fast_mode skip_save"
    unfolding run_local_metaverse_success [OF a b c] run_local_metaverse_success [OF assms] same
    by (rule refl)
qed

theorem ground_truth_render_witness:
  "strtobool ''true'' = Inr True
   \<and> render_filepath (inner_room_path (path_join ''/proj'' ''3d_utlis'') ''room_97'') True 1
       = ''/proj/3d_utlis/data/room_97/render_output_groundtruth1.png''
   \<and> path_exists_after example_ground_truth_env
         ''/proj/3d_utlis/data/room_97/render_output_groundtruth1.png''
   \<and> fst (run_local_metaverse example_ground_truth_env ''/proj'' ''room_97'' 1 ''true'' False False)
       = [Print ''Processing room: room_97'',
          Print ''Using scene graph: /proj/3d_utlis/data/room_97/scene_graph-backtracked.json'',
          Print (''Running: python /proj/3d_utlis/place_in_blender.py --room_name room_97''
                   @ '' --step_number 1 --ground_truth true''),
          Subprocess_run (''python /proj/3d_utlis/place_in_blender.py --room_name room_97''
                   @ '' --step_number 1 --ground_truth true''),
          Print ''BLENDER TIME DELAY OUTPUT'',
          Print ''out'',
          Print ''Blender processing completed successfully'',
          Print (''Warning: Expected render output not found at ''
                   @ ''/proj/3d_utlis/data/room_97/render_output_step_1.png''),
          Print_total_time]"
  using ground_truth_render_is_not_checked [of example_ground_truth_env "''/proj''" "''room_97''" 1
      "''true''" False False "''out''" "[]" 1 False]
  by (simp add: example_ground_truth_env_def example_env_def ROOMS_FOLDER_def
      PLACE_IN_BLENDER_SCRIPT_def path_join_def startswith_def endswith_def blender_cmd_of_def
      str_int_def str_nat.simps strtobool_true_false)

end
